theory Spec2Isabelle
  imports Complex_Main "HOL-Library.AList"
begin

section \<open>Data model (schemas/models.py)\<close>

text \<open>
  Python floats are modelled as reals: the properties below are about which branch is
  taken and which terms are added, not about rounding. Python exceptions are values of
  the type \<open>exn\<close>; a function that can raise returns \<open>exn + 'a\<close>.
\<close>

datatype exn =
    TypeError string
  | ValueError string
  | OverflowError string
  | AttributeError string
  | JSONDecodeError string
  | PydanticValidationError string
  | JsonSchemaValidationError string
  | OtherException string

fun exn_str :: "exn \<Rightarrow> string" where
  "exn_str (TypeError m) = m"
| "exn_str (ValueError m) = m"
| "exn_str (OverflowError m) = m"
| "exn_str (AttributeError m) = m"
| "exn_str (JSONDecodeError m) = m"
| "exn_str (PydanticValidationError m) = m"
| "exn_str (JsonSchemaValidationError m) = m"
| "exn_str (OtherException m) = m"

subsection \<open>datetime\<close>

text \<open>
  A \<open>datetime\<close> is its wall-clock reading, in microseconds since 0001-01-01T00:00:00,
  and its UTC offset in microseconds: \<open>None\<close> for a naive value (no tzinfo),
  \<open>Some off\<close> for an aware one.
\<close>

record datetime =
  ticks :: int
  utcoffset :: "int option"

definition MAXTICKS :: int where
  \<comment> \<open>one past 9999-12-31T23:59:59.999999; day 3652059 is \<open>date.max.toordinal()\<close>\<close>
  "MAXTICKS = 3652059 * 86400000000"

definition utcnow :: "int \<Rightarrow> datetime" where
  \<comment> \<open>\<open>datetime.utcnow()\<close> when the clock reads \<open>clock\<close>: always a naive value\<close>
  "utcnow clock = \<lparr>ticks = clock, utcoffset = None\<rparr>"

definition timedelta :: "int \<Rightarrow> int \<Rightarrow> int" where
  \<comment> \<open>\<open>timedelta(days=d, minutes=m)\<close>, in microseconds\<close>
  "timedelta d m = d * 86400000000 + m * 60000000"

definition dt_add :: "datetime \<Rightarrow> int \<Rightarrow> exn + datetime" where
  \<comment> \<open>\<open>dt + delta\<close>; a result outside the years 1..9999 raises OverflowError\<close>
  "dt_add d delta =
     (let t = ticks d + delta
      in if 0 \<le> t \<and> t < MAXTICKS then Inr (d\<lparr>ticks := t\<rparr>)
         else Inl (OverflowError ''date value out of range''))"

definition dt_lt :: "datetime \<Rightarrow> datetime \<Rightarrow> exn + bool" where
  \<comment> \<open>\<open>a < b\<close>: two naive values compare their readings, two aware values their UTC
      instants, and a naive value against an aware one raises TypeError\<close>
  "dt_lt a b =
     (case (utcoffset a, utcoffset b) of
        (None, None) \<Rightarrow> Inr (ticks a < ticks b)
      | (Some oa, Some ob) \<Rightarrow> Inr (ticks a - oa < ticks b - ob)
      | _ \<Rightarrow> Inl (TypeError ''can't compare offset-naive and offset-aware datetimes''))"

definition dt_gt :: "datetime \<Rightarrow> datetime \<Rightarrow> exn + bool" where
  "dt_gt a b = dt_lt b a"

definition dt_eq :: "datetime \<Rightarrow> datetime \<Rightarrow> bool" where
  \<comment> \<open>\<open>a == b\<close>: never raises; a naive value never equals an aware one\<close>
  "dt_eq a b =
     (case (utcoffset a, utcoffset b) of
        (None, None) \<Rightarrow> ticks a = ticks b
      | (Some oa, Some ob) \<Rightarrow> ticks a - oa = ticks b - ob
      | _ \<Rightarrow> False)"

subsection \<open>The event and its nested objects\<close>

datatype EventType =
    MOTION_DETECTED
  | PERSON_DETECTED
  | VEHICLE_DETECTED
  | ANOMALY_DETECTED
  | PERFORMANCE_METRIC
  | SYSTEM_EVENT

fun EventType_value :: "EventType \<Rightarrow> string" where
  "EventType_value MOTION_DETECTED = ''motion_detected''"
| "EventType_value PERSON_DETECTED = ''person_detected''"
| "EventType_value VEHICLE_DETECTED = ''vehicle_detected''"
| "EventType_value ANOMALY_DETECTED = ''anomaly_detected''"
| "EventType_value PERFORMANCE_METRIC = ''performance_metric''"
| "EventType_value SYSTEM_EVENT = ''system_event''"

record Location =
  latitude :: "real option"
  longitude :: "real option"
  address :: "string option"

record VideoSource =
  source_id :: string
  camera_id :: string
  location :: "Location option"

record BoundingBox =
  bbox_x :: real
  bbox_y :: real
  width :: real
  height :: real

datatype attr = ABool bool | AStr string | ANum real

record EventData =
  confidence :: "real option"
  bounding_box :: "BoundingBox option"
  metrics :: "(string \<times> real) list option"
  attributes :: "(string \<times> attr) list option"

record ProcessingMetadata =
  pipeline_version :: "string option"
  processing_time :: "datetime option"
  model_version :: "string option"

record VideoAnalyticsEvent =
  event_id :: string
  timestamp :: datetime
  video_source :: VideoSource
  event_type :: EventType
  data :: EventData
  processing_metadata :: "ProcessingMetadata option"

definition truthy_and_gt :: "real option \<Rightarrow> real \<Rightarrow> bool" where
  \<comment> \<open>\<open>v and v > bound\<close> as a condition: \<open>None\<close> and \<open>0.0\<close> are false in Python,
      and then the comparison is not evaluated\<close>
  "truthy_and_gt v bound = (case v of None \<Rightarrow> False | Some c \<Rightarrow> c \<noteq> 0 \<and> c > bound)"

subsection \<open>\<open>VideoAnalyticsEvent.parse_timestamp\<close>\<close>

text \<open>
  \<open>datetime.fromisoformat\<close> belongs to the Python library, and the strings it accepts
  differ between the Python versions the package supports. It is a parameter of the
  validator here (\<open>parse_timestamp_with\<close>). What every supported version does is written
  down for a fragment of the strings (\<open>iso_fragment\<close>): a date and a time of day with
  seconds, \<open>YYYY-MM-DDTHH:MM:SS\<close> or with a space for the \<open>T\<close>, with or without a
  fraction of three or six digits, with or without an offset \<open>+HH:MM\<close> or \<open>-HH:MM\<close>.
  Such a string is accepted when its fields are a date and a time that the \<open>datetime\<close>
  constructor takes, and rejected with ValueError when they are not; without an offset
  the value is naive, with an offset it is aware. With a trailing \<open>Z\<close> only the rejection
  is common to all versions. On every other string the fragment says nothing.
\<close>

definition digit :: "char \<Rightarrow> int option" where
  "digit ch = (let n = (of_char ch :: nat) in if 48 \<le> n \<and> n \<le> 57 then Some (int n - 48) else None)"

fun digits :: "int \<Rightarrow> string \<Rightarrow> int option" where
  "digits acc [] = Some acc"
| "digits acc (ch # cs) = (case digit ch of None \<Rightarrow> None | Some d \<Rightarrow> digits (acc * 10 + d) cs)"

definition number :: "string \<Rightarrow> int option" where
  "number s = (if s = [] then None else digits 0 s)"

definition is_leap :: "int \<Rightarrow> bool" where
  "is_leap y = (y mod 4 = 0 \<and> (y mod 100 \<noteq> 0 \<or> y mod 400 = 0))"

definition days_before_year :: "int \<Rightarrow> int" where
  "days_before_year y = (let p = y - 1 in p * 365 + p div 4 - p div 100 + p div 400)"

definition days_in_month :: "int \<Rightarrow> int \<Rightarrow> int" where
  "days_in_month y m =
     (if m = 2 then (if is_leap y then 29 else 28)
      else if m \<in> set [4, 6, 9, 11] then 30 else 31)"

definition days_before_month :: "int \<Rightarrow> int \<Rightarrow> int" where
  "days_before_month y m = sum_list (map (days_in_month y) [1..m - 1])"

definition mk_datetime ::
  "int \<Rightarrow> int \<Rightarrow> int \<Rightarrow> int \<Rightarrow> int \<Rightarrow> int \<Rightarrow> int \<Rightarrow> int option \<Rightarrow> exn + datetime" where
  \<comment> \<open>the \<open>datetime\<close> constructor: a field out of range raises ValueError\<close>
  "mk_datetime y mo d hh mi ss us off =
     (if 1 \<le> y \<and> y \<le> 9999 \<and> 1 \<le> mo \<and> mo \<le> 12 \<and> 1 \<le> d \<and> d \<le> days_in_month y mo
         \<and> 0 \<le> hh \<and> hh \<le> 23 \<and> 0 \<le> mi \<and> mi \<le> 59 \<and> 0 \<le> ss \<and> ss \<le> 59
         \<and> 0 \<le> us \<and> us \<le> 999999
      then Inr \<lparr>ticks = ((days_before_year y + days_before_month y mo + d - 1) * 86400
                          + hh * 3600 + mi * 60 + ss) * 1000000 + us,
                 utcoffset = off\<rparr>
      else Inl (ValueError ''field out of range''))"

definition fraction :: "string \<Rightarrow> int option" where
  \<comment> \<open>nothing, or a point and three or six digits; in microseconds\<close>
  "fraction ftext =
     (case ftext of
        [] \<Rightarrow> Some 0
      | dot # ds \<Rightarrow>
          if dot = CHR ''.'' \<and> (length ds = 3 \<or> length ds = 6)
          then (case number ds of
                  None \<Rightarrow> None
                | Some n \<Rightarrow> Some (if length ds = 3 then n * 1000 else n))
          else None)"

type_synonym date_time_fields = "int \<times> int \<times> int \<times> int \<times> int \<times> int \<times> int"

fun split_date_time :: "string \<Rightarrow> date_time_fields option" where
  \<comment> \<open>the fields of \<open>YYYY-MM-DDTHH:MM:SS\<close> and an optional fraction, read as numbers;
      \<open>None\<close> for a text that is not of this shape\<close>
  "split_date_time (y1 # y2 # y3 # y4 # a # m1 # m2 # b # d1 # d2 # sep
                    # h1 # h2 # c # n1 # n2 # e # s1 # s2 # ftext) =
     (if a = CHR ''-'' \<and> b = CHR ''-'' \<and> (sep = CHR ''T'' \<or> sep = CHR '' '')
         \<and> c = CHR '':'' \<and> e = CHR '':''
      then (case (number [y1, y2, y3, y4], number [m1, m2], number [d1, d2],
                  number [h1, h2], number [n1, n2], number [s1, s2], fraction ftext) of
              (Some y, Some mo, Some d, Some hh, Some mi, Some ss, Some us) \<Rightarrow>
                Some (y, mo, d, hh, mi, ss, us)
            | _ \<Rightarrow> None)
      else None)"
| "split_date_time s = None"

definition well_formed_local :: "string \<Rightarrow> bool" where
  \<comment> \<open>a date and a time of day, written as above without offset: the year is 0001 to
      9999, the day exists in its month, the time is 00:00:00 to 23:59:59\<close>
  "well_formed_local s =
     (case split_date_time s of
        None \<Rightarrow> False
      | Some (y, mo, d, hh, mi, ss, us) \<Rightarrow>
          1 \<le> y \<and> y \<le> 9999 \<and> 1 \<le> mo \<and> mo \<le> 12 \<and> 1 \<le> d \<and> d \<le> days_in_month y mo
          \<and> hh \<le> 23 \<and> mi \<le> 59 \<and> ss \<le> 59)"

datatype iso_outcome = Accepts datetime | Rejects | Unmodelled

definition local_value :: "string \<Rightarrow> int option \<Rightarrow> iso_outcome" where
  \<comment> \<open>the date and time of the text, handed to the constructor with the given offset.
      Hour 24 is left open: later versions read \<open>24:00\<close> as midnight.\<close>
  "local_value s off =
     (case split_date_time s of
        None \<Rightarrow> Unmodelled
      | Some (y, mo, d, hh, mi, ss, us) \<Rightarrow>
          if hh = 24 then Unmodelled
          else (case mk_datetime y mo d hh mi ss us off of
                  Inr dt \<Rightarrow> Accepts dt
                | Inl e \<Rightarrow> Rejects))"

definition parse_offset :: "string \<Rightarrow> int option" where
  \<comment> \<open>the 6 characters \<open>+HH:MM\<close> or \<open>-HH:MM\<close> with \<open>HH\<close> up to 23 and \<open>MM\<close> up to 59, in
      microseconds\<close>
  "parse_offset s =
     (case s of
        [sign, h1, h2, c, m1, m2] \<Rightarrow>
          if (sign = CHR ''+'' \<or> sign = CHR ''-'') \<and> c = CHR '':''
          then (case (number [h1, h2], number [m1, m2]) of
                  (Some hh, Some mi) \<Rightarrow>
                    (if hh \<le> 23 \<and> mi \<le> 59
                     then Some ((if sign = CHR ''-'' then -1 else 1) * (hh * 60 + mi) * 60000000)
                     else None)
                | _ \<Rightarrow> None)
          else None
      | _ \<Rightarrow> None)"

definition iso_fragment :: "string \<Rightarrow> iso_outcome" where
  "iso_fragment s =
     (let n = length s in
      if split_date_time s \<noteq> None then local_value s None
      else if 6 \<le> n \<and> split_date_time (take (n - 6) s) \<noteq> None then
        (case parse_offset (drop (n - 6) s) of
           None \<Rightarrow> Unmodelled
         | Some off \<Rightarrow> local_value (take (n - 6) s) (Some off))
      else if s \<noteq> [] \<and> last s = CHR ''Z'' \<and> split_date_time (butlast s) \<noteq> None then
        (case local_value (butlast s) (Some 0) of
           Rejects \<Rightarrow> Rejects
         | _ \<Rightarrow> Unmodelled)
      else Unmodelled)"

definition python_agrees :: "(string \<Rightarrow> exn + datetime) \<Rightarrow> bool" where
  \<comment> \<open>a parsing function that does on the fragment what every supported Python does\<close>
  "python_agrees fromisoformat_fn =
     (\<forall>s. case iso_fragment s of
            Accepts d \<Rightarrow> fromisoformat_fn s = Inr d
          | Rejects \<Rightarrow> (\<exists>m. fromisoformat_fn s = Inl (ValueError m))
          | Unmodelled \<Rightarrow> True)"

definition replace_Z :: "string \<Rightarrow> string" where
  \<comment> \<open>\<open>v.replace('Z', '+00:00')\<close>: every occurrence\<close>
  "replace_Z v = concat (map (\<lambda>ch. if ch = CHR ''Z'' then ''+00:00'' else [ch]) v)"

datatype ts_input = TsStr string | TsDatetime datetime

fun is_ValueError :: "exn \<Rightarrow> bool" where
  "is_ValueError (ValueError m) = True"
| "is_ValueError e = False"

definition parse_timestamp_with :: "(string \<Rightarrow> exn + datetime) \<Rightarrow> ts_input \<Rightarrow> exn + datetime" where
  "parse_timestamp_with fromisoformat_fn v =
     (case v of
        TsStr s \<Rightarrow>
          (case fromisoformat_fn (replace_Z s) of
             Inr d \<Rightarrow> Inr d
           | Inl e \<Rightarrow> if is_ValueError e then fromisoformat_fn s else Inl e)
      | TsDatetime d \<Rightarrow> Inr d)"

definition timestamp_field :: "(string \<Rightarrow> exn + datetime) \<Rightarrow> ts_input \<Rightarrow> exn + datetime" where
  \<comment> \<open>the field as pydantic builds it: a ValueError of the validator is reported as the
      model's ValidationError, and construction fails\<close>
  "timestamp_field fromisoformat_fn v =
     (case parse_timestamp_with fromisoformat_fn v of
        Inr d \<Rightarrow> Inr d
      | Inl e \<Rightarrow> if is_ValueError e then Inl (PydanticValidationError (exn_str e)) else Inl e)"

section \<open>Quality validator (utils/data_quality.py)\<close>

subsection \<open>The structural check: \<open>event.dict()\<close> against the JSON schema\<close>

text \<open>
  \<open>event.dict()\<close> is a Python dictionary whose values are Python objects: the timestamp
  stays a \<open>datetime\<close> object, the event type is its string value (\<open>use_enum_values\<close>),
  nested models become dictionaries.
\<close>

datatype pyval =
    PNone
  | PBool bool
  | PStr string
  | PFloat real
  | PDatetime datetime
  | PDict "(string \<times> pyval) list"

definition opt_float :: "real option \<Rightarrow> pyval" where
  "opt_float v = (case v of None \<Rightarrow> PNone | Some r \<Rightarrow> PFloat r)"

definition opt_str :: "string option \<Rightarrow> pyval" where
  "opt_str v = (case v of None \<Rightarrow> PNone | Some s \<Rightarrow> PStr s)"

fun attr_val :: "attr \<Rightarrow> pyval" where
  "attr_val (ABool b) = PBool b"
| "attr_val (AStr s) = PStr s"
| "attr_val (ANum r) = PFloat r"

definition Location_dict :: "Location \<Rightarrow> pyval" where
  "Location_dict loc =
     PDict [(''latitude'', opt_float (latitude loc)), (''longitude'', opt_float (longitude loc)),
            (''address'', opt_str (address loc))]"

definition VideoSource_dict :: "VideoSource \<Rightarrow> pyval" where
  "VideoSource_dict src =
     PDict [(''source_id'', PStr (source_id src)), (''camera_id'', PStr (camera_id src)),
            (''location'', (case location src of None \<Rightarrow> PNone | Some loc \<Rightarrow> Location_dict loc))]"

definition BoundingBox_dict :: "BoundingBox \<Rightarrow> pyval" where
  "BoundingBox_dict b =
     PDict [(''x'', PFloat (bbox_x b)), (''y'', PFloat (bbox_y b)),
            (''width'', PFloat (width b)), (''height'', PFloat (height b))]"

definition EventData_dict :: "EventData \<Rightarrow> pyval" where
  "EventData_dict d =
     PDict [(''confidence'', opt_float (confidence d)),
            (''bounding_box'', (case bounding_box d of None \<Rightarrow> PNone | Some b \<Rightarrow> BoundingBox_dict b)),
            (''metrics'', (case metrics d of None \<Rightarrow> PNone
                           | Some ms \<Rightarrow> PDict (map (\<lambda>(k, v). (k, PFloat v)) ms))),
            (''attributes'', (case attributes d of None \<Rightarrow> PNone
                              | Some kvs \<Rightarrow> PDict (map (\<lambda>(k, v). (k, attr_val v)) kvs)))]"

definition ProcessingMetadata_dict :: "ProcessingMetadata \<Rightarrow> pyval" where
  "ProcessingMetadata_dict pm =
     PDict [(''pipeline_version'', opt_str (pipeline_version pm)),
            (''processing_time'', (case processing_time pm of None \<Rightarrow> PNone | Some t \<Rightarrow> PDatetime t)),
            (''model_version'', opt_str (model_version pm))]"

definition VideoAnalyticsEvent_dict :: "VideoAnalyticsEvent \<Rightarrow> pyval" where
  "VideoAnalyticsEvent_dict event =
     PDict [(''event_id'', PStr (event_id event)),
            (''timestamp'', PDatetime (timestamp event)),
            (''video_source'', VideoSource_dict (video_source event)),
            (''event_type'', PStr (EventType_value (event_type event))),
            (''data'', EventData_dict (data event)),
            (''processing_metadata'',
               (case processing_metadata event of None \<Rightarrow> PNone
                | Some pm \<Rightarrow> ProcessingMetadata_dict pm))]"

text \<open>
  The JSON Schema keywords that \<open>_load_json_schema\<close> uses. \<open>format\<close> is carried along
  and not asserted: \<open>jsonschema.validate\<close> is called without a format checker.
\<close>

datatype schema =
  Schema (s_type: "string option") (s_required: "string list")
         (s_properties: "(string \<times> schema) list") (s_minLength: "nat option")
         (s_enum: "string list option") (s_format: "string option")

definition string_schema :: schema where
  "string_schema = Schema (Some ''string'') [] [] (Some 1) None None"

definition load_json_schema :: schema where
  "load_json_schema =
     Schema (Some ''object'')
       [''event_id'', ''timestamp'', ''video_source'', ''event_type'', ''data'']
       [(''event_id'', string_schema),
        (''timestamp'', Schema (Some ''string'') [] [] None None (Some ''date-time'')),
        (''video_source'',
           Schema (Some ''object'') [''source_id'', ''camera_id'']
             [(''source_id'', string_schema), (''camera_id'', string_schema)] None None None),
        (''event_type'',
           Schema (Some ''string'') [] [] None
             (Some [''motion_detected'', ''person_detected'', ''vehicle_detected'',
                    ''anomaly_detected'', ''performance_metric'', ''system_event'']) None),
        (''data'', Schema (Some ''object'') [] [] None None None)]
       None None None"

fun is_type :: "pyval \<Rightarrow> string \<Rightarrow> bool" where
  \<comment> \<open>jsonschema's type checker: a string is an instance of \<open>str\<close>, an object a \<open>dict\<close>\<close>
  "is_type (PStr s) t = (t = ''string'')"
| "is_type (PDict kv) t = (t = ''object'')"
| "is_type (PFloat r) t = (t = ''number'')"
| "is_type (PBool b) t = (t = ''boolean'')"
| "is_type PNone t = (t = ''null'')"
| "is_type (PDatetime d) t = False"

fun py_repr :: "pyval \<Rightarrow> string" where
  \<comment> \<open>the object's \<open>repr\<close> in an error message; only strings are spelled out\<close>
  "py_repr (PStr s) = [CHR 0x27] @ s @ [CHR 0x27]"
| "py_repr (PDatetime d) = ''datetime.datetime(...)''"
| "py_repr (PDict kv) = ''{...}''"
| "py_repr (PFloat r) = ''<float>''"
| "py_repr (PBool b) = (if b then ''True'' else ''False'')"
| "py_repr PNone = ''None''"

fun iter_errors :: "pyval \<Rightarrow> schema \<Rightarrow> string list" where
  "iter_errors inst (Schema ty req props minlen enum fmt) =
     (case ty of None \<Rightarrow> []
      | Some t \<Rightarrow> if is_type inst t then []
                  else [py_repr inst @ '' is not of type '' @ [CHR 0x27] @ t @ [CHR 0x27]])
     @ (case inst of
          PDict kv \<Rightarrow>
            map (\<lambda>p. [CHR 0x27] @ p @ [CHR 0x27] @ '' is a required property'')
                (filter (\<lambda>p. map_of kv p = None) req)
        | _ \<Rightarrow> [])
     @ (case inst of
          PDict kv \<Rightarrow>
            concat (map (\<lambda>ps. case map_of kv (fst ps) of
                                 None \<Rightarrow> []
                               | Some v \<Rightarrow> iter_errors v (snd ps)) props)
        | _ \<Rightarrow> [])
     @ (case inst of
          PStr s \<Rightarrow> (case minlen of None \<Rightarrow> []
                     | Some n \<Rightarrow> if length s < n then [py_repr inst @ '' is too short''] else [])
        | _ \<Rightarrow> [])
     @ (case enum of None \<Rightarrow> []
        | Some vs \<Rightarrow>
            (case inst of
               PStr s \<Rightarrow> if s \<in> set vs then [] else [py_repr inst @ '' is not one of the enum values'']
             | _ \<Rightarrow> [py_repr inst @ '' is not one of the enum values'']))"

definition validate :: "pyval \<Rightarrow> schema \<Rightarrow> exn option" where
  \<comment> \<open>\<open>jsonschema.validate\<close>: returns normally (\<open>None\<close>) or raises its ValidationError.
      Which of several errors it reports is jsonschema's choice; the first one in keyword
      order stands for it here.\<close>
  "validate inst sch =
     (case iter_errors inst sch of [] \<Rightarrow> None | m # _ \<Rightarrow> Some (JsonSchemaValidationError m))"

subsection \<open>The five rules\<close>

text \<open>
  Each rule returns its errors, its warnings and its severity. The body of a rule runs
  inside \<open>try\<close>; an exception there ends the body and adds one error to what the rule
  had collected. Only the timestamp rule can raise on an event of this model: it compares
  the event's timestamp with the naive \<open>datetime.utcnow()\<close>. The decimal rendering of a
  float inside a message is not reproduced.
\<close>

record rule_result =
  rule_errors :: "string list"
  rule_warnings :: "string list"
  severity :: real

definition rule_raised :: "string list \<Rightarrow> string list \<Rightarrow> real \<Rightarrow> string \<Rightarrow> exn \<Rightarrow> rule_result" where
  \<comment> \<open>\<open>except Exception as e: errors.append(f"<prefix>: {str(e)}")\<close>\<close>
  "rule_raised errs warns sev prefix e =
     \<lparr>rule_errors = errs @ [prefix @ '': '' @ exn_str e], rule_warnings = warns, severity = sev\<rparr>"

definition timestamp_in_future :: "int \<Rightarrow> VideoAnalyticsEvent \<Rightarrow> exn + bool" where
  \<comment> \<open>\<open>event.timestamp > now + timedelta(minutes=5)\<close>\<close>
  "timestamp_in_future clock event =
     (case dt_add (utcnow clock) (timedelta 0 5) of
        Inl e \<Rightarrow> Inl e
      | Inr bound \<Rightarrow> dt_gt (timestamp event) bound)"

definition timestamp_old :: "int \<Rightarrow> VideoAnalyticsEvent \<Rightarrow> exn + bool" where
  \<comment> \<open>\<open>event.timestamp < now - timedelta(days=7)\<close>\<close>
  "timestamp_old clock event =
     (case dt_add (utcnow clock) (- timedelta 7 0) of
        Inl e \<Rightarrow> Inl e
      | Inr bound \<Rightarrow> dt_lt (timestamp event) bound)"

definition processed_before_event :: "VideoAnalyticsEvent \<Rightarrow> exn + bool" where
  \<comment> \<open>\<open>event.processing_metadata and event.processing_metadata.processing_time and
      event.processing_metadata.processing_time < event.timestamp\<close>\<close>
  "processed_before_event event =
     (case processing_metadata event of
        None \<Rightarrow> Inr False
      | Some pm \<Rightarrow>
          (case processing_time pm of
             None \<Rightarrow> Inr False
           | Some t \<Rightarrow> dt_lt t (timestamp event)))"

definition validate_timestamp :: "int \<Rightarrow> VideoAnalyticsEvent \<Rightarrow> rule_result" where
  "validate_timestamp clock event =
     (let sev = 0.8; prefix = ''Timestamp validation error'' in
      case timestamp_in_future clock event of
        Inl e \<Rightarrow> rule_raised [] [] sev prefix e
      | Inr future \<Rightarrow>
          (let errs = (if future then [''Timestamp is too far in the future''] else []) in
           case timestamp_old clock event of
             Inl e \<Rightarrow> rule_raised errs [] sev prefix e
           | Inr old \<Rightarrow>
               (let warns = (if old then [''Timestamp is quite old (more than 7 days)''] else []) in
                case processed_before_event event of
                  Inl e \<Rightarrow> rule_raised errs warns sev prefix e
                | Inr earlier \<Rightarrow>
                    \<lparr>rule_errors = errs,
                     rule_warnings =
                       warns @ (if earlier then [''Processing time is before event timestamp''] else []),
                     severity = sev\<rparr>)))"

definition validate_confidence :: "VideoAnalyticsEvent \<Rightarrow> rule_result" where
  "validate_confidence event =
     (case confidence (data event) of
        None \<Rightarrow> \<lparr>rule_errors = [], rule_warnings = [], severity = 0.5\<rparr>
      | Some c \<Rightarrow>
          \<lparr>rule_errors =
             (if \<not> (0.0 \<le> c \<and> c \<le> 1.0)
              then [''Confidence score <confidence> is out of range [0,1]''] else []),
           rule_warnings =
             (if event_type event \<in> set [PERSON_DETECTED, VEHICLE_DETECTED] \<and> c < 0.3
              then [''Very low confidence for detection event''] else []),
           severity = 0.5\<rparr>)"

definition validate_bounding_box :: "VideoAnalyticsEvent \<Rightarrow> rule_result" where
  "validate_bounding_box event =
     (case bounding_box (data event) of
        None \<Rightarrow> \<lparr>rule_errors = [], rule_warnings = [], severity = 0.6\<rparr>
      | Some bbox \<Rightarrow>
          \<lparr>rule_errors =
             (if bbox_x bbox < 0 \<or> bbox_y bbox < 0
              then [''Bounding box has negative coordinates''] else [])
             @ (if width bbox \<le> 0 \<or> height bbox \<le> 0
                then [''Bounding box has invalid dimensions''] else []),
           rule_warnings =
             (if width bbox < 10 \<or> height bbox < 10
              then [''Bounding box is very small''] else [])
             @ (if width bbox > 3840 \<or> height bbox > 2160
                then [''Bounding box dimensions exceed typical video resolution''] else []),
           severity = 0.6\<rparr>)"

definition quoted :: "string \<Rightarrow> string" where
  "quoted s = [CHR 0x27] @ s @ [CHR 0x27]"

definition validate_event_consistency :: "VideoAnalyticsEvent \<Rightarrow> rule_result" where
  "validate_event_consistency event =
     \<lparr>rule_errors =
        (if event_type event = PERFORMANCE_METRIC
            \<and> (case metrics (data event) of None \<Rightarrow> True | Some ms \<Rightarrow> ms = [] \<or> length ms = 0)
         then [''Performance metric event missing metrics data''] else []),
      rule_warnings =
        (if event_type event \<in> set [PERSON_DETECTED, VEHICLE_DETECTED, MOTION_DETECTED]
            \<and> confidence (data event) = None
         then [''Detection event '' @ quoted (EventType_value (event_type event))
               @ '' missing confidence score''] else [])
        @ (if event_type event \<in> set [PERSON_DETECTED, VEHICLE_DETECTED]
              \<and> bounding_box (data event) = None
           then [''Visual detection event '' @ quoted (EventType_value (event_type event))
                 @ '' missing bounding box''] else []),
      severity = 0.7\<rparr>"

definition isspace :: "char \<Rightarrow> bool" where
  \<comment> \<open>the characters that \<open>str.strip()\<close> removes. A \<open>char\<close> of an identifier stands for a
      code point below 256; of those, \<open>str.isspace()\<close> holds for these twelve, NEXT LINE
      (U+0085) and NO-BREAK SPACE (U+00A0) among them.\<close>
  "isspace ch =
     (ch \<in> set [CHR 0x09, CHR 0x0A, CHR 0x0B, CHR 0x0C, CHR 0x0D,
                 CHR 0x1C, CHR 0x1D, CHR 0x1E, CHR 0x1F, CHR 0x20, CHR 0x85, CHR 0xA0])"

definition strip :: "string \<Rightarrow> string" where
  "strip s = rev (dropWhile isspace (rev (dropWhile isspace s)))"

definition validate_source_integrity :: "VideoAnalyticsEvent \<Rightarrow> rule_result" where
  "validate_source_integrity event =
     \<lparr>rule_errors =
        (if strip (source_id (video_source event)) = [] then [''Empty video source ID''] else [])
        @ (if strip (camera_id (video_source event)) = [] then [''Empty camera ID''] else [])
        @ (case location (video_source event) of
             None \<Rightarrow> []
           | Some loc \<Rightarrow>
               (case latitude loc of
                  None \<Rightarrow> []
                | Some la \<Rightarrow> if \<not> (-90 \<le> la \<and> la \<le> 90) then [''Invalid latitude value''] else [])
               @ (case longitude loc of
                    None \<Rightarrow> []
                  | Some lo \<Rightarrow> if \<not> (-180 \<le> lo \<and> lo \<le> 180) then [''Invalid longitude value''] else [])),
      rule_warnings = [],
      severity = 0.4\<rparr>"

subsection \<open>\<open>DataQualityChecker.validate_event\<close>\<close>

text \<open>
  \<open>self.validation_rules\<close> maps a rule's name to a callable, and the loop of
  \<open>validate_event\<close> guards each call with \<open>try\<close>: a rule is a function that returns
  its result or raises. \<open>validate_event_with\<close> is the method for any table of rules and
  any structural check; \<open>validate_event\<close> is the method of the checker that
  \<open>__init__\<close> builds. The clock reading is passed in.
\<close>

type_synonym rule = "int \<Rightarrow> VideoAnalyticsEvent \<Rightarrow> exn + rule_result"

record ValidationResult =
  is_valid :: bool
  errors :: "string list"
  warnings :: "string list"
  score :: real

definition initialize_validation_rules :: "(string \<times> rule) list" where
  "initialize_validation_rules =
     [(''timestamp_validity'', \<lambda>clock event. Inr (validate_timestamp clock event)),
      (''confidence_range'', \<lambda>clock event. Inr (validate_confidence event)),
      (''bounding_box_validity'', \<lambda>clock event. Inr (validate_bounding_box event)),
      (''event_consistency'', \<lambda>clock event. Inr (validate_event_consistency event)),
      (''source_integrity'', \<lambda>clock event. Inr (validate_source_integrity event))]"

type_synonym vstate = "string list \<times> string list \<times> real"

definition rule_step :: "int \<Rightarrow> VideoAnalyticsEvent \<Rightarrow> vstate \<Rightarrow> string \<times> rule \<Rightarrow> vstate" where
  \<comment> \<open>one turn of the loop over \<open>self.validation_rules.items()\<close>\<close>
  "rule_step clock event st r =
     (case st of (errs, warns, quality_score) \<Rightarrow>
        (case (snd r) clock event of
           Inr res \<Rightarrow>
             (let errs1 = (if rule_errors res \<noteq> [] then errs @ rule_errors res else errs);
                  q1 = (if rule_errors res \<noteq> [] then quality_score - severity res * 0.2
                        else quality_score);
                  warns1 = (if rule_warnings res \<noteq> [] then warns @ rule_warnings res else warns);
                  q2 = (if rule_warnings res \<noteq> [] then q1 - severity res * 0.1 else q1)
              in (errs1, warns1, q2))
         | Inl e \<Rightarrow>
             (errs @ [''Validation rule '' @ quoted (fst r) @ '' failed: '' @ exn_str e],
              warns, quality_score - 0.1)))"

fun after_schema :: "exn option \<Rightarrow> exn + vstate" where
  \<comment> \<open>lines 91-95: the structural check returns, raises its ValidationError (caught:
      one error, 0.3 off the score), or raises anything else (not caught there)\<close>
  "after_schema None = Inr ([], [], 1.0)"
| "after_schema (Some (JsonSchemaValidationError m)) =
     Inr ([''Schema validation failed: '' @ m], [], 1.0 - 0.3)"
| "after_schema (Some e) = Inl e"

definition run_rules :: "int \<Rightarrow> VideoAnalyticsEvent \<Rightarrow> vstate \<Rightarrow> (string \<times> rule) list \<Rightarrow> vstate" where
  "run_rules clock event st validation_rules = foldl (rule_step clock event) st validation_rules"

definition make_result :: "vstate \<Rightarrow> ValidationResult" where
  \<comment> \<open>lines 111-114 and the return: the clamp, and \<open>is_valid = len(errors) == 0\<close>\<close>
  "make_result st =
     (case st of (errs, warns, quality_score) \<Rightarrow>
        \<lparr>is_valid = (length errs = 0), errors = errs, warnings = warns,
         score = max 0.0 quality_score\<rparr>)"

definition validate_event_with ::
  "(pyval \<Rightarrow> schema \<Rightarrow> exn option) \<Rightarrow> (string \<times> rule) list \<Rightarrow> int \<Rightarrow> VideoAnalyticsEvent
   \<Rightarrow> ValidationResult" where
  "validate_event_with validate_fn validation_rules clock event =
     (let event_dict = VideoAnalyticsEvent_dict event in
      case after_schema (validate_fn event_dict load_json_schema) of
        Inr st0 \<Rightarrow> make_result (run_rules clock event st0 validation_rules)
      | Inl e \<Rightarrow>
          \<lparr>is_valid = False, errors = [''Unexpected validation error: '' @ exn_str e],
           warnings = [], score = 0.0\<rparr>)"

definition validate_event :: "int \<Rightarrow> VideoAnalyticsEvent \<Rightarrow> ValidationResult" where
  "validate_event clock event =
     validate_event_with validate initialize_validation_rules clock event"

text \<open>What one rule adds to the errors, to the warnings, and takes off the score.\<close>

definition rule_errs :: "int \<Rightarrow> VideoAnalyticsEvent \<Rightarrow> string \<times> rule \<Rightarrow> string list" where
  "rule_errs clock event r =
     (case (snd r) clock event of
        Inr res \<Rightarrow> rule_errors res
      | Inl e \<Rightarrow> [''Validation rule '' @ quoted (fst r) @ '' failed: '' @ exn_str e])"

definition rule_warns :: "int \<Rightarrow> VideoAnalyticsEvent \<Rightarrow> string \<times> rule \<Rightarrow> string list" where
  "rule_warns clock event r =
     (case (snd r) clock event of Inr res \<Rightarrow> rule_warnings res | Inl e \<Rightarrow> [])"

definition result_penalty :: "rule_result \<Rightarrow> real" where
  "result_penalty res =
     (if rule_errors res \<noteq> [] then severity res * 0.2 else 0)
     + (if rule_warnings res \<noteq> [] then severity res * 0.1 else 0)"

definition rule_penalty :: "int \<Rightarrow> VideoAnalyticsEvent \<Rightarrow> string \<times> rule \<Rightarrow> real" where
  "rule_penalty clock event r =
     (case (snd r) clock event of Inr res \<Rightarrow> result_penalty res | Inl e \<Rightarrow> 0.1)"

section \<open>Counters (monitoring/metrics.py)\<close>

text \<open>
  \<open>MetricsCollector.counters\<close> is a \<open>defaultdict(int)\<close>: every key reads 0 until it is
  incremented. The periodic export only logs and is left out.
\<close>

type_synonym counters = "string \<Rightarrow> int"

definition increment_counter :: "string \<Rightarrow> counters \<Rightarrow> counters" where
  "increment_counter metric_name c =
     (let key = ''video_analytics.'' @ metric_name in c(key := c key + 1))"

section \<open>Parse stage (beam/transforms.py, ParseVideoEvent)\<close>

text \<open>
  \<open>decode\<close> stands for lines 44-47: \<open>json.loads\<close> of the message and the construction of
  the event, which return an event or raise. \<open>checker\<close> is
  \<open>self.data_quality_checker.validate_event\<close>; \<open>setup\<close> installs \<open>validate_event\<close>.
\<close>

definition stamp_processing_metadata :: "int \<Rightarrow> VideoAnalyticsEvent \<Rightarrow> exn + VideoAnalyticsEvent" where
  \<comment> \<open>lines 54-58. Without metadata the field is set to the dictionary \<open>{}\<close>, and the
      next line assigns an attribute of that dictionary, which raises AttributeError.\<close>
  "stamp_processing_metadata clock event =
     (case processing_metadata event of
        None \<Rightarrow> Inl (AttributeError ''dict object has no attribute processing_time'')
      | Some pm \<Rightarrow>
          Inr (event\<lparr>processing_metadata :=
                 Some (pm\<lparr>processing_time := Some (utcnow clock),
                          pipeline_version := Some ''1.0.0''\<rparr>)\<rparr>))"

fun failure_counter :: "exn \<Rightarrow> string" where
  \<comment> \<open>the \<open>except\<close> clauses of lines 69-79, in their order\<close>
  "failure_counter (JSONDecodeError m) = ''events_parse_failed''"
| "failure_counter (PydanticValidationError m) = ''events_validation_failed''"
| "failure_counter e = ''events_processing_error''"

definition ParseVideoEvent_process_with ::
  "(string \<Rightarrow> exn + VideoAnalyticsEvent) \<Rightarrow> (int \<Rightarrow> VideoAnalyticsEvent \<Rightarrow> ValidationResult)
   \<Rightarrow> int \<Rightarrow> string \<Rightarrow> counters \<Rightarrow> VideoAnalyticsEvent list \<times> counters" where
  "ParseVideoEvent_process_with decode checker clock element c =
     (case decode element of
        Inl e \<Rightarrow> ([], increment_counter (failure_counter e) c)
      | Inr event \<Rightarrow>
          (let quality_result = checker clock event in
           if is_valid quality_result then
             (case stamp_processing_metadata clock event of
                Inl e \<Rightarrow> ([], increment_counter (failure_counter e) c)
              | Inr stamped \<Rightarrow> ([stamped], increment_counter ''events_processed_success'' c))
           else ([], increment_counter ''events_data_quality_failed'' c)))"

definition ParseVideoEvent_process ::
  "(string \<Rightarrow> exn + VideoAnalyticsEvent) \<Rightarrow> int \<Rightarrow> string \<Rightarrow> counters
   \<Rightarrow> VideoAnalyticsEvent list \<times> counters" where
  "ParseVideoEvent_process decode clock element c =
     ParseVideoEvent_process_with decode validate_event clock element c"

section \<open>Enrichment (beam/transforms.py, EnrichEvent)\<close>

text \<open>
  Nothing in the body of \<open>EnrichEvent.process\<close> raises on an event of this model; its
  \<open>except Exception\<close> clause is there for faults that are not expected. Such a fault is
  an input of the model: it names the statement of the \<open>try\<close> block that raises. The
  statements before it have already changed the event, and the handler yields that
  same object.
\<close>

datatype enrich_fault =
    NoFault
  | ConfidenceStepRaises exn
  | LocationStepRaises exn
  | CounterRaises exn

definition set_attribute :: "string \<Rightarrow> attr \<Rightarrow> EventData \<Rightarrow> EventData" where
  \<comment> \<open>\<open>if not event.data.attributes: event.data.attributes = {}\<close>, then the assignment\<close>
  "set_attribute k v d =
     (let attrs = (case attributes d of None \<Rightarrow> [] | Some kvs \<Rightarrow> kvs)
      in d\<lparr>attributes := Some (AList.update k v attrs)\<rparr>)"

definition mark_high_confidence :: "VideoAnalyticsEvent \<Rightarrow> VideoAnalyticsEvent" where
  "mark_high_confidence event =
     (if event_type event \<in> set [PERSON_DETECTED, VEHICLE_DETECTED]
         \<and> truthy_and_gt (confidence (data event)) 0.9
      then event\<lparr>data := set_attribute ''high_confidence'' (ABool True) (data event)\<rparr>
      else event)"

definition mark_has_location :: "VideoAnalyticsEvent \<Rightarrow> VideoAnalyticsEvent" where
  "mark_has_location event =
     (if location (video_source event) \<noteq> None
      then event\<lparr>data := set_attribute ''has_location'' (ABool True) (data event)\<rparr>
      else event)"

definition enrichment_failed :: "VideoAnalyticsEvent \<Rightarrow> counters \<Rightarrow> VideoAnalyticsEvent list \<times> counters" where
  \<comment> \<open>the handler, lines 119-123\<close>
  "enrichment_failed event c = ([event], increment_counter ''events_enrichment_failed'' c)"

fun EnrichEvent_process ::
  "enrich_fault \<Rightarrow> VideoAnalyticsEvent \<Rightarrow> counters \<Rightarrow> VideoAnalyticsEvent list \<times> counters" where
  "EnrichEvent_process (ConfidenceStepRaises e) event c = enrichment_failed event c"
| "EnrichEvent_process (LocationStepRaises e) event c =
     enrichment_failed (mark_high_confidence event) c"
| "EnrichEvent_process (CounterRaises e) event c =
     enrichment_failed (mark_has_location (mark_high_confidence event)) c"
| "EnrichEvent_process NoFault event c =
     ([mark_has_location (mark_high_confidence event)], increment_counter ''events_enriched'' c)"

section \<open>Classification (beam/transforms.py, FilterAnomalies; beam/pipeline.py)\<close>

record FilterResult =
  fr_event :: VideoAnalyticsEvent
  is_anomaly :: bool
  processing_priority :: string
  processed_at :: datetime

definition compute_is_anomaly :: "real \<Rightarrow> VideoAnalyticsEvent \<Rightarrow> bool" where
  \<comment> \<open>lines 148-156 of \<open>FilterAnomalies.process\<close>\<close>
  "compute_is_anomaly confidence_threshold event =
     (if event_type event = ANOMALY_DETECTED then True
      else if truthy_and_gt (confidence (data event)) confidence_threshold
              \<and> event_type event \<in> set [PERSON_DETECTED, VEHICLE_DETECTED] then True
      else False)"

definition FilterAnomalies_process ::
  "real \<Rightarrow> datetime \<Rightarrow> VideoAnalyticsEvent \<Rightarrow> counters \<Rightarrow> FilterResult list \<times> counters" where
  "FilterAnomalies_process confidence_threshold now event c =
     (let anomaly = compute_is_anomaly confidence_threshold event;
          result = \<lparr>fr_event = event, is_anomaly = anomaly,
                    processing_priority = (if anomaly then ''high'' else ''normal''),
                    processed_at = now\<rparr>;
          c1 = (if anomaly then increment_counter ''anomalies_detected'' c else c)
      in ([result], increment_counter ''events_filtered'' c1))"

definition normal_events :: "FilterResult list \<Rightarrow> FilterResult list" where
  \<comment> \<open>pipeline.py, "Filter Normal Events"\<close>
  "normal_events filtered_events = filter (\<lambda>x. \<not> is_anomaly x) filtered_events"

definition anomaly_events :: "FilterResult list \<Rightarrow> FilterResult list" where
  \<comment> \<open>pipeline.py, "Filter Anomaly Events"\<close>
  "anomaly_events filtered_events = filter (\<lambda>x. is_anomaly x) filtered_events"

section \<open>Dictionaries of counts\<close>

text \<open>
  A Python dictionary keeps its keys in the order of their first insertion: it is an
  association list here, and \<open>AList.update\<close> overwrites a key in place or appends it.
\<close>

definition get_count :: "(string \<times> nat) list \<Rightarrow> string \<Rightarrow> nat" where
  \<comment> \<open>\<open>d.get(k, 0)\<close>\<close>
  "get_count d k = (case map_of d k of None \<Rightarrow> 0 | Some n \<Rightarrow> n)"

definition tally :: "(string \<times> nat) list \<Rightarrow> string \<Rightarrow> (string \<times> nat) list" where
  \<comment> \<open>\<open>counts[k] = counts.get(k, 0) + 1\<close>\<close>
  "tally counts k = AList.update k (get_count counts k + 1) counts"

definition first_seen :: "string list \<Rightarrow> string list" where
  \<comment> \<open>the distinct elements of a list, in the order of their first occurrence\<close>
  "first_seen xs = rev (remdups (rev xs))"

definition occurrence_counts :: "string list \<Rightarrow> (string \<times> nat) list" where
  \<comment> \<open>each distinct element with the number of its occurrences, in first-seen order\<close>
  "occurrence_counts xs = map (\<lambda>k. (k, count_list xs k)) (first_seen xs)"

section \<open>Windowed aggregation (beam/transforms.py, WindowedAggregation)\<close>

text \<open>
  The element is a key and the filter results grouped under it in one window.
\<close>

record IntervalWindow =
  window_start :: int
  window_end :: int

record WindowAggregate =
  agg_window_start :: int
  agg_window_end :: int
  agg_source_id :: string
  total_events :: nat
  event_type_counts :: "(string \<times> nat) list"
  average_confidence :: real
  high_confidence_events :: nat
  aggregated_at :: datetime

definition aggregate_step ::
  "(string \<times> nat) list \<times> real list \<Rightarrow> FilterResult \<Rightarrow> (string \<times> nat) list \<times> real list" where
  \<comment> \<open>one turn of the loop, lines 206-211; \<open>if d.get("confidence")\<close> is false for a missing
      confidence and for 0.0\<close>
  "aggregate_step st event_dict =
     (case st of (event_types, confidence_scores) \<Rightarrow>
        (let et = EventType_value (event_type (fr_event event_dict));
             event_types1 = tally event_types et
         in (event_types1,
             (case confidence (data (fr_event event_dict)) of
                None \<Rightarrow> confidence_scores
              | Some cf \<Rightarrow> if cf \<noteq> 0 then confidence_scores @ [cf] else confidence_scores))))"

definition WindowedAggregation_process ::
  "string \<times> FilterResult list \<Rightarrow> IntervalWindow \<Rightarrow> int \<Rightarrow> counters
   \<Rightarrow> WindowAggregate list \<times> counters" where
  "WindowedAggregation_process element window clock c =
     (case element of (key, events_list) \<Rightarrow>
        (case foldl aggregate_step ([], []) events_list of
           (event_types, confidence_scores) \<Rightarrow>
             (let avg_confidence =
                    (if confidence_scores \<noteq> []
                     then sum_list confidence_scores / real (length confidence_scores) else 0);
                  aggregation =
                    \<lparr>agg_window_start = window_start window, agg_window_end = window_end window,
                     agg_source_id = key, total_events = length events_list,
                     event_type_counts = event_types, average_confidence = avg_confidence,
                     high_confidence_events = length (filter (\<lambda>s. s > 0.9) confidence_scores),
                     aggregated_at = utcnow clock\<rparr>
              in ([aggregation], increment_counter ''windows_aggregated'' c))))"

section \<open>Quality monitor (utils/data_quality.py, DataQualityMonitor)\<close>

record quality_record =
  qr_timestamp :: int  \<comment> \<open>the reading of \<open>datetime.utcnow()\<close>, a naive value\<close>
  qr_event_id :: string
  quality_score :: real
  qr_is_valid :: bool
  error_count :: nat
  warning_count :: nat

record DataQualityMonitor =
  quality_history :: "quality_record list"
  error_counts :: "(string \<times> nat) list"
  warning_counts :: "(string \<times> nat) list"

definition DataQualityMonitor_init :: DataQualityMonitor where
  "DataQualityMonitor_init = \<lparr>quality_history = [], error_counts = [], warning_counts = []\<rparr>"

definition record_validation_result ::
  "int \<Rightarrow> ValidationResult \<Rightarrow> string \<Rightarrow> DataQualityMonitor \<Rightarrow> DataQualityMonitor" where
  "record_validation_result clock result eid m =
     \<lparr>quality_history =
        quality_history m @
          [\<lparr>qr_timestamp = clock, qr_event_id = eid, quality_score = score result,
            qr_is_valid = is_valid result, error_count = length (errors result),
            warning_count = length (warnings result)\<rparr>],
      error_counts = foldl tally (error_counts m) (errors result),
      warning_counts = foldl tally (warning_counts m) (warnings result)\<rparr>"

record QualityMetrics =
  qm_window_minutes :: int
  qm_total_events :: nat
  valid_events :: nat
  validity_rate :: real
  average_quality_score :: real
  total_errors :: nat
  total_warnings :: nat
  top_errors :: "(string \<times> nat) list"
  top_warnings :: "(string \<times> nat) list"

datatype metrics_report = NoData | Report QualityMetrics

definition timedelta_minutes :: "int \<Rightarrow> exn + int" where
  \<comment> \<open>\<open>timedelta(minutes=m)\<close>, in microseconds: more than 999999999 days either way
      raises OverflowError\<close>
  "timedelta_minutes m =
     (let us = m * 60000000; days = us div 86400000000
      in if -999999999 \<le> days \<and> days \<le> 999999999 then Inr us
         else Inl (OverflowError ''days out of range for timedelta''))"

definition cutoff :: "int \<Rightarrow> int \<Rightarrow> exn + int" where
  \<comment> \<open>\<open>datetime.utcnow() - timedelta(minutes=window_minutes)\<close>: the result must be a
      date of the years 1..9999\<close>
  "cutoff clock window_minutes =
     (case timedelta_minutes window_minutes of
        Inl e \<Rightarrow> Inl e
      | Inr us \<Rightarrow>
          (case dt_add (utcnow clock) (- us) of
             Inl e \<Rightarrow> Inl e
           | Inr d \<Rightarrow> Inr (ticks d)))"

definition top5 :: "(string \<times> nat) list \<Rightarrow> (string \<times> nat) list" where
  \<comment> \<open>\<open>sorted(counts.items(), key=lambda x: x[1], reverse=True)[:5]\<close>: Python's sort is
      stable, also when reversed\<close>
  "top5 counts = take 5 (sort_key (\<lambda>x. - int (snd x)) counts)"

definition in_window :: "int \<Rightarrow> quality_record list \<Rightarrow> quality_record list" where
  \<comment> \<open>\<open>[record for record in history if record["timestamp"] > cutoff_time]\<close>\<close>
  "in_window cutoff_time history = filter (\<lambda>r. qr_timestamp r > cutoff_time) history"

definition get_quality_metrics :: "int \<Rightarrow> int \<Rightarrow> DataQualityMonitor \<Rightarrow> exn + metrics_report" where
  "get_quality_metrics clock window_minutes m =
     (case cutoff clock window_minutes of
        Inl e \<Rightarrow> Inl e
      | Inr cutoff_time \<Rightarrow>
          (let recent_records = in_window cutoff_time (quality_history m) in
           if recent_records = [] then Inr NoData
           else
             (let total = length recent_records;
                  valid = length (filter qr_is_valid recent_records)
              in Inr (Report
                   \<lparr>qm_window_minutes = window_minutes,
                    qm_total_events = total,
                    valid_events = valid,
                    validity_rate = real valid / real total,
                    average_quality_score = sum_list (map quality_score recent_records) / real total,
                    total_errors = sum_list (map error_count recent_records),
                    total_warnings = sum_list (map warning_count recent_records),
                    top_errors = top5 (error_counts m),
                    top_warnings = top5 (warning_counts m)\<rparr>))))"

text \<open>A monitor's life: validation results recorded one after the other, each at its time.\<close>

record recording =
  rec_clock :: int
  rec_result :: ValidationResult
  rec_event_id :: string

definition record_all :: "recording list \<Rightarrow> DataQualityMonitor \<Rightarrow> DataQualityMonitor" where
  "record_all rs m =
     foldl (\<lambda>mon r. record_validation_result (rec_clock r) (rec_result r) (rec_event_id r) mon) m rs"

definition history_record :: "recording \<Rightarrow> quality_record" where
  \<comment> \<open>the entry that \<open>record_validation_result\<close> appends to the history\<close>
  "history_record r =
     \<lparr>qr_timestamp = rec_clock r, qr_event_id = rec_event_id r,
      quality_score = score (rec_result r), qr_is_valid = is_valid (rec_result r),
      error_count = length (errors (rec_result r)),
      warning_count = length (warnings (rec_result r))\<rparr>"

section \<open>Views of the results, the specification's wording, sample inputs\<close>

subsection \<open>Views of what the code returns\<close>

definition five_results :: "int \<Rightarrow> VideoAnalyticsEvent \<Rightarrow> rule_result list" where
  \<comment> \<open>what the five rules of \<open>_initialize_validation_rules\<close> return, in their order\<close>
  "five_results clock event =
     [validate_timestamp clock event, validate_confidence event, validate_bounding_box event,
      validate_event_consistency event, validate_source_integrity event]"

definition timestamp_try_body ::
  "int \<Rightarrow> VideoAnalyticsEvent \<Rightarrow> string list \<times> string list \<times> exn option" where
  \<comment> \<open>the \<open>try\<close> block of \<open>_validate_timestamp\<close> alone: the errors and warnings appended
      when the block ends, and the exception that ended it, if one did\<close>
  "timestamp_try_body clock event =
     (case timestamp_in_future clock event of
        Inl e \<Rightarrow> ([], [], Some e)
      | Inr future \<Rightarrow>
          (let errs = (if future then [''Timestamp is too far in the future''] else []) in
           case timestamp_old clock event of
             Inl e \<Rightarrow> (errs, [], Some e)
           | Inr old \<Rightarrow>
               (let warns = (if old then [''Timestamp is quite old (more than 7 days)''] else []) in
                case processed_before_event event of
                  Inl e \<Rightarrow> (errs, warns, Some e)
                | Inr earlier \<Rightarrow>
                    (errs,
                     warns @ (if earlier then [''Processing time is before event timestamp''] else []),
                     None))))"

definition observed_confidence :: "FilterResult list \<Rightarrow> real list" where
  \<comment> \<open>the confidence values that the loop of \<open>WindowedAggregation.process\<close> collects\<close>
  "observed_confidence events_list =
     concat (map (\<lambda>d. case confidence (data (fr_event d)) of
                          None \<Rightarrow> [] | Some cf \<Rightarrow> if cf \<noteq> 0 then [cf] else []) events_list)"

subsection \<open>The specification's wording, for comparison\<close>

text \<open>
  These three follow the words of the specification, not the code. The detection family
  of the specification has three members.
\<close>

definition spec_is_anomaly :: "real \<Rightarrow> VideoAnalyticsEvent \<Rightarrow> bool" where
  "spec_is_anomaly threshold event =
     (event_type event = ANOMALY_DETECTED
      \<or> ((case confidence (data event) of None \<Rightarrow> False | Some cf \<Rightarrow> cf > threshold)
         \<and> event_type event \<in> set [MOTION_DETECTED, PERSON_DETECTED, VEHICLE_DETECTED]))"

definition spec_score :: "int \<Rightarrow> VideoAnalyticsEvent \<Rightarrow> real" where
  \<comment> \<open>the specification's words: 1.0 minus severity * 0.2 for each error and
      severity * 0.1 for each warning of the five rules, not below 0\<close>
  "spec_score clock event =
     max 0 (1.0 - sum_list (map (\<lambda>res. severity res * 0.2 * real (length (rule_errors res))
                                        + severity res * 0.1 * real (length (rule_warnings res)))
                               (five_results clock event)))"

definition spec_average_confidence :: "FilterResult list \<Rightarrow> real" where
  \<comment> \<open>the specification's words: the mean of the confidence values present on the
      window's events, 0 when there is none\<close>
  "spec_average_confidence events_list =
     (let present = concat (map (\<lambda>d. case confidence (data (fr_event d)) of
                                         None \<Rightarrow> [] | Some cf \<Rightarrow> [cf]) events_list)
      in if present = [] then 0 else sum_list present / real (length present))"

subsection \<open>Sample inputs\<close>

definition clock0 :: int where
  \<comment> \<open>2023-12-01T10:30:00\<close>
  "clock0 = 63837023400000000"

definition window0 :: IntervalWindow where
  \<comment> \<open>the 60 s window that starts at the epoch\<close>
  "window0 = \<lparr>window_start = 0, window_end = 60000000\<rparr>"

definition sample_event :: "EventType \<Rightarrow> real option \<Rightarrow> VideoAnalyticsEvent" where
  \<comment> \<open>an event of camera_001 at 2023-12-01T10:30:00, of the given type and confidence\<close>
  "sample_event et cf =
     \<lparr>event_id = ''test_event_001'',
      timestamp = \<lparr>ticks = 63837023400000000, utcoffset = None\<rparr>,
      video_source = \<lparr>source_id = ''camera_001'', camera_id = ''cam_123'', location = None\<rparr>,
      event_type = et,
      data = \<lparr>confidence = cf, bounding_box = None, metrics = None, attributes = None\<rparr>,
      processing_metadata = None\<rparr>"

definition test_valid_event :: "int \<Rightarrow> VideoAnalyticsEvent" where
  \<comment> \<open>\<open>valid_event\<close> of tests/test_models.py, built when the clock reads \<open>clock\<close>\<close>
  "test_valid_event clock =
     \<lparr>event_id = ''test_event_001'',
      timestamp = utcnow clock,
      video_source = \<lparr>source_id = ''camera_001'', camera_id = ''cam_123'', location = None\<rparr>,
      event_type = PERSON_DETECTED,
      data = \<lparr>confidence = Some 0.95,
              bounding_box = Some \<lparr>bbox_x = 10, bbox_y = 20, width = 100, height = 80\<rparr>,
              metrics = None, attributes = None\<rparr>,
      processing_metadata = None\<rparr>"

definition blank_ids_event :: "int \<Rightarrow> VideoAnalyticsEvent" where
  \<comment> \<open>a \<open>system_event\<close> whose source and camera identifiers are one space each\<close>
  "blank_ids_event clock =
     \<lparr>event_id = ''test_event_002'',
      timestamp = utcnow clock,
      video_source = \<lparr>source_id = '' '', camera_id = '' '', location = None\<rparr>,
      event_type = SYSTEM_EVENT,
      data = \<lparr>confidence = None, bounding_box = None, metrics = None, attributes = None\<rparr>,
      processing_metadata = None\<rparr>"

definition aware_event :: VideoAnalyticsEvent where
  \<comment> \<open>a \<open>system_event\<close> whose timestamp is the aware value that the Z form parses to\<close>
  "aware_event =
     \<lparr>event_id = ''test_event_003'',
      timestamp = \<lparr>ticks = clock0, utcoffset = Some 0\<rparr>,
      video_source = \<lparr>source_id = ''camera_001'', camera_id = ''cam_123'', location = None\<rparr>,
      event_type = SYSTEM_EVENT,
      data = \<lparr>confidence = None, bounding_box = None, metrics = None, attributes = None\<rparr>,
      processing_metadata = None\<rparr>"

definition window_event :: "real option \<Rightarrow> FilterResult" where
  \<comment> \<open>a normal \<open>motion_detected\<close> event of source A, as \<open>FilterAnomalies\<close> yields it\<close>
  "window_event cf =
     \<lparr>fr_event =
        \<lparr>event_id = ''e'', timestamp = utcnow clock0,
         video_source = \<lparr>source_id = ''A'', camera_id = ''cam'', location = None\<rparr>,
         event_type = MOTION_DETECTED,
         data = \<lparr>confidence = cf, bounding_box = None, metrics = None, attributes = None\<rparr>,
         processing_metadata = None\<rparr>,
      is_anomaly = False, processing_priority = ''normal'', processed_at = utcnow clock0\<rparr>"

definition accept_all :: "int \<Rightarrow> VideoAnalyticsEvent \<Rightarrow> ValidationResult" where
  \<comment> \<open>a checker that finds every event valid\<close>
  "accept_all clock event = \<lparr>is_valid = True, errors = [], warnings = [], score = 1.0\<rparr>"

definition schema_passes :: "pyval \<Rightarrow> schema \<Rightarrow> exn option" where
  \<comment> \<open>a structural check that accepts every instance\<close>
  "schema_passes inst sch = None"

definition schema_crashes :: "pyval \<Rightarrow> schema \<Rightarrow> exn option" where
  \<comment> \<open>a structural check that raises something other than its ValidationError\<close>
  "schema_crashes inst sch = Some (OtherException ''schema unavailable'')"

definition broken_rule :: rule where
  \<comment> \<open>a rule whose evaluation raises\<close>
  "broken_rule clock event = Inl (OtherException ''boom'')"

definition fragment_parser :: "string \<Rightarrow> exn + datetime" where
  \<comment> \<open>a parsing function for the samples: on the fragment, what every supported Python
      answers. Outside the fragment it answers with an exception of its own, which says
      that the string is not modelled; that is not an answer of Python.\<close>
  "fragment_parser s =
     (case iso_fragment s of
        Accepts d \<Rightarrow> Inr d
      | Rejects \<Rightarrow> Inl (ValueError ''Invalid isoformat string'')
      | Unmodelled \<Rightarrow> Inl (OtherException ''outside the modelled fragment''))"

definition old_failure :: recording where
  \<comment> \<open>an invalid result recorded two hours before \<open>clock0\<close>\<close>
  "old_failure =
     \<lparr>rec_clock = clock0 - 7200000000,
      rec_result = \<lparr>is_valid = False, errors = [''Empty camera ID''], warnings = [],
                    score = 0.92\<rparr>,
      rec_event_id = ''old''\<rparr>"

definition recent_success :: recording where
  \<comment> \<open>a clean result recorded one minute before \<open>clock0\<close>\<close>
  "recent_success =
     \<lparr>rec_clock = clock0 - 60000000,
      rec_result = \<lparr>is_valid = True, errors = [], warnings = [], score = 1.0\<rparr>,
      rec_event_id = ''recent''\<rparr>"

section \<open>Classification: what the code computes\<close>

lemma compute_is_anomaly_iff:
  "0 \<le> threshold \<Longrightarrow>
   compute_is_anomaly threshold event =
     (event_type event = ANOMALY_DETECTED
      \<or> ((case confidence (data event) of None \<Rightarrow> False | Some cf \<Rightarrow> cf > threshold)
         \<and> (event_type event = PERSON_DETECTED \<or> event_type event = VEHICLE_DETECTED)))"
  by (auto simp: compute_is_anomaly_def truthy_and_gt_def split: option.splits)

text \<open>
  C4, as the code has it. For a threshold that is not negative, an event is an anomaly
  exactly when its type is \<open>anomaly_detected\<close>, or its confidence is above the threshold
  and its type is \<open>person_detected\<close> or \<open>vehicle_detected\<close>; \<open>motion_detected\<close> is not in
  the list of \<open>FilterAnomalies\<close>. The stage yields one result, whose priority is
  \<open>high\<close> for an anomaly and \<open>normal\<close> otherwise, and the two filters of the pipeline
  send it to the anomaly branch or to the normal branch accordingly. An
  \<open>anomaly_detected\<close> event goes to the anomaly branch whatever its confidence.
\<close>

theorem C4_classification:
  assumes "0 \<le> threshold"
  shows "\<exists>r. fst (FilterAnomalies_process threshold now event c) = [r]
           \<and> fr_event r = event
           \<and> is_anomaly r =
               (event_type event = ANOMALY_DETECTED
                \<or> ((case confidence (data event) of None \<Rightarrow> False | Some cf \<Rightarrow> cf > threshold)
                   \<and> (event_type event = PERSON_DETECTED \<or> event_type event = VEHICLE_DETECTED)))
           \<and> processing_priority r = (if is_anomaly r then ''high'' else ''normal'')
           \<and> anomaly_events [r] = (if is_anomaly r then [r] else [])
           \<and> normal_events [r] = (if is_anomaly r then [] else [r])
           \<and> (event_type event = ANOMALY_DETECTED \<longrightarrow> anomaly_events [r] = [r])"
  using compute_is_anomaly_iff [OF assms, of event]
  by (simp add: FilterAnomalies_process_def Let_def anomaly_events_def normal_events_def)

theorem C4_classification_witness:
  "(0::real) \<le> 0.95
   \<and> anomaly_events (fst (FilterAnomalies_process 0.95 (utcnow 0)
        (sample_event PERSON_DETECTED (Some 0.96)) (\<lambda>k. 0))) \<noteq> []
   \<and> normal_events (fst (FilterAnomalies_process 0.95 (utcnow 0)
        (sample_event PERSON_DETECTED (Some 0.96)) (\<lambda>k. 0))) = []
   \<and> anomaly_events (fst (FilterAnomalies_process 0.95 (utcnow 0)
        (sample_event PERSON_DETECTED (Some 0.80)) (\<lambda>k. 0))) = []
   \<and> normal_events (fst (FilterAnomalies_process 0.95 (utcnow 0)
        (sample_event PERSON_DETECTED (Some 0.80)) (\<lambda>k. 0))) \<noteq> []
   \<and> anomaly_events (fst (FilterAnomalies_process 0.95 (utcnow 0)
        (sample_event ANOMALY_DETECTED None) (\<lambda>k. 0))) \<noteq> []"
proof -
  have h: "(0::real) \<le> 0.95" by simp
  from C4_classification [OF h, of "utcnow 0" "sample_event PERSON_DETECTED (Some 0.96)" "\<lambda>k. 0"]
  have a: "anomaly_events (fst (FilterAnomalies_process 0.95 (utcnow 0)
             (sample_event PERSON_DETECTED (Some 0.96)) (\<lambda>k. 0))) \<noteq> []
           \<and> normal_events (fst (FilterAnomalies_process 0.95 (utcnow 0)
             (sample_event PERSON_DETECTED (Some 0.96)) (\<lambda>k. 0))) = []"
    by (auto simp: sample_event_def)
  from C4_classification [OF h, of "utcnow 0" "sample_event PERSON_DETECTED (Some 0.80)" "\<lambda>k. 0"]
  have b: "anomaly_events (fst (FilterAnomalies_process 0.95 (utcnow 0)
             (sample_event PERSON_DETECTED (Some 0.80)) (\<lambda>k. 0))) = []
           \<and> normal_events (fst (FilterAnomalies_process 0.95 (utcnow 0)
             (sample_event PERSON_DETECTED (Some 0.80)) (\<lambda>k. 0))) \<noteq> []"
    by (auto simp: sample_event_def)
  from C4_classification [OF h, of "utcnow 0" "sample_event ANOMALY_DETECTED None" "\<lambda>k. 0"]
  have d: "anomaly_events (fst (FilterAnomalies_process 0.95 (utcnow 0)
             (sample_event ANOMALY_DETECTED None) (\<lambda>k. 0))) \<noteq> []"
    by (auto simp: sample_event_def)
  show ?thesis using h a b d by blast
qed

text \<open>
  The claim as worded fails on a \<open>motion_detected\<close> event of confidence 0.99 at the
  threshold 0.95: the specification's rule makes it an anomaly, the code yields it with
  \<open>is_anomaly = False\<close> and priority \<open>normal\<close>, and it goes to the normal branch.
\<close>

theorem C4_motion_counterexample:
  "spec_is_anomaly 0.95 (sample_event MOTION_DETECTED (Some 0.99))
   \<and> map is_anomaly (fst (FilterAnomalies_process 0.95 (utcnow 0)
        (sample_event MOTION_DETECTED (Some 0.99)) (\<lambda>k. 0))) = [False]
   \<and> map processing_priority (fst (FilterAnomalies_process 0.95 (utcnow 0)
        (sample_event MOTION_DETECTED (Some 0.99)) (\<lambda>k. 0))) = [''normal'']
   \<and> anomaly_events (fst (FilterAnomalies_process 0.95 (utcnow 0)
        (sample_event MOTION_DETECTED (Some 0.99)) (\<lambda>k. 0))) = []"
  by (simp add: spec_is_anomaly_def sample_event_def FilterAnomalies_process_def
      compute_is_anomaly_def truthy_and_gt_def anomaly_events_def Let_def)

section \<open>Enrichment never loses an event\<close>

text \<open>
  C8. Whatever statement of the \<open>try\<close> block raises, and when none does,
  \<open>EnrichEvent.process\<close> yields exactly one event. It is the input event with at most the
  two derived attributes added: its identity, timestamp, source, type, confidence,
  bounding box and metrics are unchanged. Without a fault it is the enriched event and
  \<open>events_enriched\<close> is counted; with a fault \<open>events_enrichment_failed\<close> is counted.
\<close>

theorem C8_enrichment_yields_one_event:
  "\<exists>ev. fst (EnrichEvent_process fault event c) = [ev]
      \<and> event_id ev = event_id event \<and> timestamp ev = timestamp event
      \<and> video_source ev = video_source event \<and> event_type ev = event_type event
      \<and> confidence (data ev) = confidence (data event)
      \<and> bounding_box (data ev) = bounding_box (data event)
      \<and> metrics (data ev) = metrics (data event)
      \<and> processing_metadata ev = processing_metadata event
      \<and> (fault = NoFault \<longrightarrow>
           ev = mark_has_location (mark_high_confidence event)
           \<and> snd (EnrichEvent_process fault event c) = increment_counter ''events_enriched'' c)
      \<and> (fault \<noteq> NoFault \<longrightarrow>
           snd (EnrichEvent_process fault event c)
             = increment_counter ''events_enrichment_failed'' c)"
  by (cases fault)
     (simp_all add: enrichment_failed_def mark_has_location_def mark_high_confidence_def
                    set_attribute_def)

theorem C8_enrichment_witness:
  "fst (EnrichEvent_process NoFault (test_valid_event clock0) (\<lambda>k. 0))
     = [mark_has_location (mark_high_confidence (test_valid_event clock0))]
   \<and> attributes (data (mark_has_location (mark_high_confidence (test_valid_event clock0))))
     = Some [(''high_confidence'', ABool True)]
   \<and> length (fst (EnrichEvent_process (CounterRaises (OtherException ''export failed''))
               (test_valid_event clock0) (\<lambda>k. 0))) = 1
   \<and> snd (EnrichEvent_process (CounterRaises (OtherException ''export failed''))
               (test_valid_event clock0) (\<lambda>k. 0)) ''video_analytics.events_enrichment_failed'' = 1"
  using C8_enrichment_yields_one_event [of NoFault "test_valid_event clock0" "\<lambda>k. 0"]
        C8_enrichment_yields_one_event [of "CounterRaises (OtherException ''export failed'')"
                                           "test_valid_event clock0" "\<lambda>k. 0"]
  by (auto simp: test_valid_event_def mark_has_location_def mark_high_confidence_def
                 set_attribute_def truthy_and_gt_def increment_counter_def Let_def)

section \<open>The validation loop\<close>

lemma rule_step_eq:
  "rule_step clock event (es, ws, q) r =
     (es @ rule_errs clock event r, ws @ rule_warns clock event r, q - rule_penalty clock event r)"
  by (simp add: rule_step_def rule_errs_def rule_warns_def rule_penalty_def result_penalty_def
           Let_def split: sum.splits)

lemma run_rules_eq:
  "run_rules clock event (es, ws, q) rs =
     (es @ concat (map (rule_errs clock event) rs),
      ws @ concat (map (rule_warns clock event) rs),
      q - sum_list (map (rule_penalty clock event) rs))"
proof (induction rs arbitrary: es ws q)
  case Nil
  show ?case by (simp add: run_rules_def)
next
  case (Cons r rs)
  have "run_rules clock event (es, ws, q) (r # rs)
          = run_rules clock event (rule_step clock event (es, ws, q) r) rs"
    by (simp add: run_rules_def)
  also have "\<dots> = run_rules clock event
      (es @ rule_errs clock event r, ws @ rule_warns clock event r, q - rule_penalty clock event r) rs"
    by (simp only: rule_step_eq)
  finally show ?case by (simp add: Cons.IH algebra_simps)
qed

lemma timestamp_rejected_by_schema:
  "iter_errors (VideoAnalyticsEvent_dict event) load_json_schema \<noteq> []"
  by (simp add: VideoAnalyticsEvent_dict_def load_json_schema_def)

lemma validate_raises:
  "\<exists>m. validate (VideoAnalyticsEvent_dict event) load_json_schema
          = Some (JsonSchemaValidationError m)"
  using timestamp_rejected_by_schema [of event]
  by (cases "iter_errors (VideoAnalyticsEvent_dict event) load_json_schema")
     (simp_all add: validate_def)

lemma validate_event_never_valid: "\<not> is_valid (validate_event clock event)"
proof -
  obtain m where m: "validate (VideoAnalyticsEvent_dict event) load_json_schema
                       = Some (JsonSchemaValidationError m)"
    using validate_raises by blast
  show ?thesis
    by (simp add: validate_event_def validate_event_with_def m run_rules_eq make_result_def)
qed

lemma ParseVideoEvent_process_yields_nothing:
  "fst (ParseVideoEvent_process decode clock element c) = []"
  by (simp add: ParseVideoEvent_process_def ParseVideoEvent_process_with_def
           validate_event_never_valid Let_def split: sum.splits)

lemma five_rule_errs:
  "map (rule_errs clock event) initialize_validation_rules = map rule_errors (five_results clock event)"
  by (simp add: initialize_validation_rules_def rule_errs_def five_results_def)

lemma five_rule_warns:
  "map (rule_warns clock event) initialize_validation_rules
     = map rule_warnings (five_results clock event)"
  by (simp add: initialize_validation_rules_def rule_warns_def five_results_def)

lemma five_rule_penalty:
  "map (rule_penalty clock event) initialize_validation_rules
     = map result_penalty (five_results clock event)"
  by (simp add: initialize_validation_rules_def rule_penalty_def five_results_def)

lemma severity_validate_timestamp: "severity (validate_timestamp clock event) = 0.8"
  by (simp add: validate_timestamp_def rule_raised_def Let_def split: sum.splits)

lemma five_severities:
  "map severity (five_results clock event) = [0.8, 0.5, 0.6, 0.7, 0.4]"
  by (simp add: five_results_def severity_validate_timestamp validate_confidence_def
           validate_bounding_box_def validate_event_consistency_def
           validate_source_integrity_def split: option.splits)

lemma result_penalty_nonneg: "0 \<le> severity res \<Longrightarrow> 0 \<le> result_penalty res"
  by (simp add: result_penalty_def)

lemma validate_event_with_returns:
  assumes "after_schema (validate_fn (VideoAnalyticsEvent_dict event) load_json_schema)
             = Inr (es0, ws0, q0)"
  shows "validate_event_with validate_fn rs clock event =
           \<lparr>is_valid = (es0 @ concat (map (rule_errs clock event) rs) = []),
            errors = es0 @ concat (map (rule_errs clock event) rs),
            warnings = ws0 @ concat (map (rule_warns clock event) rs),
            score = max 0 (q0 - sum_list (map (rule_penalty clock event) rs))\<rparr>"
  using assms by (simp add: validate_event_with_def run_rules_eq make_result_def)

lemma validate_event_with_raises:
  assumes "after_schema (validate_fn (VideoAnalyticsEvent_dict event) load_json_schema) = Inl e"
  shows "validate_event_with validate_fn rs clock event =
           \<lparr>is_valid = False, errors = [''Unexpected validation error: '' @ exn_str e],
            warnings = [], score = 0\<rparr>"
  using assms by (simp add: validate_event_with_def)

lemma after_schema_cases:
  "after_schema v = Inr ([], [], 1) \<and> v = None
   \<or> (\<exists>m. after_schema v = Inr ([''Schema validation failed: '' @ m], [], 7 / 10)
          \<and> v = Some (JsonSchemaValidationError m))
   \<or> (\<exists>e. after_schema v = Inl e \<and> v = Some e)"
proof (cases v)
  case None
  then show ?thesis by simp
next
  case (Some e)
  then show ?thesis by (cases e) simp_all
qed

section \<open>The parse stage drops every message\<close>

lemma parse_invalid_dropped:
  assumes "decode element = Inr event" "\<not> is_valid (checker clock event)"
  shows "ParseVideoEvent_process_with decode checker clock element c
           = ([], increment_counter ''events_data_quality_failed'' c)"
  using assms by (simp add: ParseVideoEvent_process_with_def)

lemma parse_valid_with_metadata_yielded:
  assumes "decode element = Inr event" "is_valid (checker clock event)"
          "processing_metadata event = Some pm"
  shows "ParseVideoEvent_process_with decode checker clock element c
           = ([event\<lparr>processing_metadata :=
                      Some (pm\<lparr>processing_time := Some (utcnow clock),
                               pipeline_version := Some ''1.0.0''\<rparr>)\<rparr>],
              increment_counter ''events_processed_success'' c)"
  using assms by (simp add: ParseVideoEvent_process_with_def stamp_processing_metadata_def)

lemma parse_valid_without_metadata_dropped:
  assumes "decode element = Inr event" "is_valid (checker clock event)"
          "processing_metadata event = None"
  shows "ParseVideoEvent_process_with decode checker clock element c
           = ([], increment_counter ''events_processing_error'' c)"
  using assms by (simp add: ParseVideoEvent_process_with_def stamp_processing_metadata_def)

text \<open>
  C1, at the message that carries \<open>valid_event\<close> of the repository's tests, which has no
  \<open>processing_metadata\<close>. With the checker that \<open>setup\<close> installs the event fails the
  structural check (its timestamp is a \<open>datetime\<close> object, the schema asks for a
  string), so the stage yields nothing and counts \<open>events_data_quality_failed\<close>. With a
  checker that finds the event valid the stage still yields nothing: stamping the missing
  metadata raises, and \<open>events_processing_error\<close> is counted.
\<close>

theorem C1_valid_message_dropped:
  "fst (ParseVideoEvent_process (\<lambda>element. Inr (test_valid_event clock0)) clock0
          ''message'' (\<lambda>k. 0)) = []
   \<and> snd (ParseVideoEvent_process (\<lambda>element. Inr (test_valid_event clock0)) clock0
          ''message'' (\<lambda>k. 0)) ''video_analytics.events_data_quality_failed'' = 1
   \<and> fst (ParseVideoEvent_process_with (\<lambda>element. Inr (test_valid_event clock0)) accept_all
          clock0 ''message'' (\<lambda>k. 0)) = []
   \<and> snd (ParseVideoEvent_process_with (\<lambda>element. Inr (test_valid_event clock0)) accept_all
          clock0 ''message'' (\<lambda>k. 0)) ''video_analytics.events_processing_error'' = 1"
proof -
  have a: "ParseVideoEvent_process (\<lambda>element. Inr (test_valid_event clock0)) clock0
             ''message'' (\<lambda>k. 0) = ([], increment_counter ''events_data_quality_failed'' (\<lambda>k. 0))"
    unfolding ParseVideoEvent_process_def
    by (rule parse_invalid_dropped [where event = "test_valid_event clock0"])
       (simp_all add: validate_event_never_valid)
  have b: "ParseVideoEvent_process_with (\<lambda>element. Inr (test_valid_event clock0)) accept_all
             clock0 ''message'' (\<lambda>k. 0) = ([], increment_counter ''events_processing_error'' (\<lambda>k. 0))"
    by (rule parse_valid_without_metadata_dropped [where event = "test_valid_event clock0"])
       (simp_all add: accept_all_def test_valid_event_def)
  show ?thesis by (simp add: a b increment_counter_def)
qed

section \<open>The score of an event without issues\<close>

lemma clean_event_scores_one:
  assumes "validate_fn (VideoAnalyticsEvent_dict event) load_json_schema = None"
          "concat (map rule_errors (five_results clock event)) = []"
          "concat (map rule_warnings (five_results clock event)) = []"
  shows "validate_event_with validate_fn initialize_validation_rules clock event
           = \<lparr>is_valid = True, errors = [], warnings = [], score = 1\<rparr>"
proof -
  have s0: "after_schema (validate_fn (VideoAnalyticsEvent_dict event) load_json_schema)
              = Inr ([], [], 1)"
    using assms(1) by simp
  have p: "sum_list (map result_penalty (five_results clock event)) = 0"
    using assms(2,3) by (simp add: five_results_def result_penalty_def)
  show ?thesis
    using assms(2,3)
    by (simp add: validate_event_with_returns
               [where validate_fn = validate_fn and event = event, OF s0]
             five_rule_errs five_rule_warns five_rule_penalty p)
qed

text \<open>
  C5, at \<open>valid_event\<close> of the repository's tests: confidence 0.95, and none of the five
  rules reports an error or a warning. \<open>validate_event\<close> returns \<open>is_valid = False\<close> and
  the score 0.7, with the one error of the structural check, where the tests (and the
  claim) expect a valid result.
\<close>

theorem C5_valid_event_rejected:
  "is_valid (validate_event clock0 (test_valid_event clock0)) = False
   \<and> score (validate_event clock0 (test_valid_event clock0)) = 0.7
   \<and> length (errors (validate_event clock0 (test_valid_event clock0))) = 1
   \<and> warnings (validate_event clock0 (test_valid_event clock0)) = []
   \<and> concat (map rule_errors (five_results clock0 (test_valid_event clock0))) = []
   \<and> concat (map rule_warnings (five_results clock0 (test_valid_event clock0))) = []
   \<and> confidence (data (test_valid_event clock0)) = Some 0.95"
proof -
  have e: "concat (map rule_errors (five_results clock0 (test_valid_event clock0))) = []"
    by (simp add: five_results_def test_valid_event_def clock0_def validate_timestamp_def
             timestamp_in_future_def timestamp_old_def processed_before_event_def dt_add_def
             dt_lt_def dt_gt_def utcnow_def timedelta_def MAXTICKS_def validate_confidence_def
             validate_bounding_box_def validate_event_consistency_def
             validate_source_integrity_def strip_def isspace_def Let_def)
  have w: "concat (map rule_warnings (five_results clock0 (test_valid_event clock0))) = []"
    by (simp add: five_results_def test_valid_event_def clock0_def validate_timestamp_def
             timestamp_in_future_def timestamp_old_def processed_before_event_def dt_add_def
             dt_lt_def dt_gt_def utcnow_def timedelta_def MAXTICKS_def validate_confidence_def
             validate_bounding_box_def validate_event_consistency_def
             validate_source_integrity_def strip_def isspace_def Let_def)
  have p: "sum_list (map result_penalty (five_results clock0 (test_valid_event clock0))) = 0"
    using e w by (simp add: five_results_def result_penalty_def)
  obtain m where m: "validate (VideoAnalyticsEvent_dict (test_valid_event clock0))
                       load_json_schema = Some (JsonSchemaValidationError m)"
    using validate_raises by blast
  have s0: "after_schema (validate (VideoAnalyticsEvent_dict (test_valid_event clock0))
              load_json_schema) = Inr ([''Schema validation failed: '' @ m], [], 1.0 - 0.3)"
    by (simp add: m)
  have r: "validate_event clock0 (test_valid_event clock0)
             = \<lparr>is_valid = False, errors = [''Schema validation failed: '' @ m],
                warnings = [], score = 0.7\<rparr>"
    using e w
    by (simp add: validate_event_def
             validate_event_with_returns
               [where validate_fn = validate and event = "test_valid_event clock0", OF s0]
             five_rule_errs five_rule_warns five_rule_penalty p)
  have cf: "confidence (data (test_valid_event clock0)) = Some 0.95"
    by (simp add: test_valid_event_def)
  show ?thesis using e w cf by (simp add: r)
qed

section \<open>The score\<close>

lemma validate_event_result:
  "validate_event clock event =
     (let es0 = (case validate (VideoAnalyticsEvent_dict event) load_json_schema of
                   None \<Rightarrow> [] | Some e \<Rightarrow> [''Schema validation failed: '' @ exn_str e]);
          q0 = (if validate (VideoAnalyticsEvent_dict event) load_json_schema = None
                then 1 else 1 - 0.3)
      in \<lparr>is_valid = (es0 @ concat (map rule_errors (five_results clock event)) = []),
          errors = es0 @ concat (map rule_errors (five_results clock event)),
          warnings = concat (map rule_warnings (five_results clock event)),
          score = max 0 (q0 - sum_list (map result_penalty (five_results clock event)))\<rparr>)"
proof -
  obtain m where m: "validate (VideoAnalyticsEvent_dict event) load_json_schema
                       = Some (JsonSchemaValidationError m)"
    using validate_raises by blast
  have s0: "after_schema (validate (VideoAnalyticsEvent_dict event) load_json_schema)
              = Inr ([''Schema validation failed: '' @ m], [], 1 - 0.3)"
    by (simp add: m)
  show ?thesis
    by (simp add: validate_event_def
             validate_event_with_returns [where validate_fn = validate and event = event, OF s0]
             five_rule_errs five_rule_warns five_rule_penalty m)
qed

text \<open>
  C2, as the code has it. The score starts at 1.0; a failure of the structural check
  takes 0.3 off; each of the five rules takes \<open>severity * 0.2\<close> off once if it reports
  any error, however many, and \<open>severity * 0.1\<close> once if it reports any warning; the
  result is not below 0. The severities are 0.8, 0.5, 0.6, 0.7 and 0.4. The errors are
  those of the structural check followed by those of the rules, and \<open>is_valid\<close> holds
  exactly when there is none.
\<close>

theorem C2_score_formula:
  "score (validate_event clock event)
     = max 0 (1 - (if validate (VideoAnalyticsEvent_dict event) load_json_schema = None
                   then 0 else 0.3)
                - sum_list (map result_penalty (five_results clock event)))
   \<and> map severity (five_results clock event) = [0.8, 0.5, 0.6, 0.7, 0.4]
   \<and> errors (validate_event clock event)
       = (case validate (VideoAnalyticsEvent_dict event) load_json_schema of
            None \<Rightarrow> [] | Some e \<Rightarrow> [''Schema validation failed: '' @ exn_str e])
         @ concat (map rule_errors (five_results clock event))
   \<and> warnings (validate_event clock event)
       = concat (map rule_warnings (five_results clock event))
   \<and> is_valid (validate_event clock event) = (errors (validate_event clock event) = [])"
  by (simp add: validate_event_result five_severities Let_def)

lemma blank_ids_results:
  "map rule_errors (five_results clock0 (blank_ids_event clock0))
     = [[], [], [], [], [''Empty video source ID'', ''Empty camera ID'']]
   \<and> map rule_warnings (five_results clock0 (blank_ids_event clock0)) = [[], [], [], [], []]"
  by (simp add: five_results_def blank_ids_event_def clock0_def validate_timestamp_def
           timestamp_in_future_def timestamp_old_def processed_before_event_def dt_add_def
           dt_lt_def dt_gt_def utcnow_def timedelta_def MAXTICKS_def validate_confidence_def
           validate_bounding_box_def validate_event_consistency_def
           validate_source_integrity_def strip_def isspace_def Let_def)

lemma blank_ids_penalty:
  "sum_list (map result_penalty (five_results clock0 (blank_ids_event clock0))) = 0.08"
proof -
  have "map result_penalty (five_results clock0 (blank_ids_event clock0))
          = [0, 0, 0, 0, 0.08]"
    using blank_ids_results five_severities [of clock0 "blank_ids_event clock0"]
    by (simp add: five_results_def result_penalty_def)
  then show ?thesis by simp
qed

theorem C2_score_formula_witness:
  "score (validate_event clock0 (blank_ids_event clock0)) = 0.62
   \<and> length (errors (validate_event clock0 (blank_ids_event clock0))) = 3
   \<and> is_valid (validate_event clock0 (blank_ids_event clock0)) = False"
proof -
  obtain m where m: "validate (VideoAnalyticsEvent_dict (blank_ids_event clock0))
                       load_json_schema = Some (JsonSchemaValidationError m)"
    using validate_raises by blast
  show ?thesis
    using C2_score_formula [of clock0 "blank_ids_event clock0"] blank_ids_results
    by (simp add: m blank_ids_penalty)
qed

text \<open>
  The claim as worded fails on an event whose source and camera identifiers are both
  blank: the source rule reports two errors, so the claim's score is
  \<open>1 - 2 * (0.4 * 0.2) = 0.84\<close>. The code takes the rule's \<open>0.08\<close> off once: it returns
  0.62 (the structural check has failed too), and 0.92 when the structural check is
  replaced by one that passes.
\<close>

theorem C2_score_counterexample:
  "spec_score clock0 (blank_ids_event clock0) = 0.84
   \<and> score (validate_event clock0 (blank_ids_event clock0)) = 0.62
   \<and> score (validate_event_with schema_passes initialize_validation_rules clock0
              (blank_ids_event clock0)) = 0.92"
proof -
  have sp: "spec_score clock0 (blank_ids_event clock0) = 0.84"
    using blank_ids_results five_severities [of clock0 "blank_ids_event clock0"]
    by (simp add: spec_score_def five_results_def)
  obtain m where m: "validate (VideoAnalyticsEvent_dict (blank_ids_event clock0))
                       load_json_schema = Some (JsonSchemaValidationError m)"
    using validate_raises by blast
  have a: "score (validate_event clock0 (blank_ids_event clock0)) = 0.62"
    by (simp add: validate_event_result m blank_ids_penalty)
  have s0: "after_schema (schema_passes (VideoAnalyticsEvent_dict (blank_ids_event clock0))
              load_json_schema) = Inr ([], [], 1)"
    by (simp add: schema_passes_def)
  have b: "score (validate_event_with schema_passes initialize_validation_rules clock0
                    (blank_ids_event clock0)) = 0.92"
    by (simp add: validate_event_with_returns
                    [where validate_fn = schema_passes and event = "blank_ids_event clock0", OF s0]
                  five_rule_penalty blank_ids_penalty)
  show ?thesis using sp a b by simp
qed

section \<open>A rule that raises\<close>

lemma validate_timestamp_try_body:
  "validate_timestamp clock event =
     (case timestamp_try_body clock event of
        (errs, warns, None) \<Rightarrow> \<lparr>rule_errors = errs, rule_warnings = warns, severity = 0.8\<rparr>
      | (errs, warns, Some e) \<Rightarrow>
          \<lparr>rule_errors = errs @ [''Timestamp validation error: '' @ exn_str e],
           rule_warnings = warns, severity = 0.8\<rparr>)"
  by (simp add: validate_timestamp_def timestamp_try_body_def rule_raised_def Let_def
           split: sum.splits)

lemma tl_five_results:
  "five_results clock event = validate_timestamp clock event # tl (five_results clock event)"
  by (simp add: five_results_def)

lemma shipped_rules_return:
  "\<forall>r \<in> set initialize_validation_rules. \<exists>res. (snd r) clock event = Inr res"
  by (simp add: initialize_validation_rules_def)

lemma timestamp_rule_raised:
  assumes "after_schema (validate_fn (VideoAnalyticsEvent_dict event) load_json_schema)
             = Inr (es0, ws0, q0)"
      and "timestamp_try_body clock event = (errs, warns, Some e)"
  shows "errors (validate_event_with validate_fn initialize_validation_rules clock event)
           = es0 @ errs @ [''Timestamp validation error: '' @ exn_str e]
             @ concat (map rule_errors (tl (five_results clock event)))
         \<and> warnings (validate_event_with validate_fn initialize_validation_rules clock event)
           = ws0 @ warns @ concat (map rule_warnings (tl (five_results clock event)))
         \<and> score (validate_event_with validate_fn initialize_validation_rules clock event)
           = max 0 (q0 - 0.16 - (if warns = [] then 0 else 0.08)
                       - sum_list (map result_penalty (tl (five_results clock event))))"
proof -
  have vt: "validate_timestamp clock event =
              \<lparr>rule_errors = errs @ [''Timestamp validation error: '' @ exn_str e],
               rule_warnings = warns, severity = 0.8\<rparr>"
    by (simp add: validate_timestamp_try_body assms(2))
  have p: "result_penalty (validate_timestamp clock event)
             = 0.16 + (if warns = [] then 0 else 0.08)"
    by (simp add: vt result_penalty_def)
  have f: "five_results clock event = validate_timestamp clock event # tl (five_results clock event)"
    by (rule tl_five_results)
  have e1: "concat (map rule_errors (five_results clock event))
              = errs @ [''Timestamp validation error: '' @ exn_str e]
                @ concat (map rule_errors (tl (five_results clock event)))"
    by (subst f) (simp add: vt)
  have e2: "concat (map rule_warnings (five_results clock event))
              = warns @ concat (map rule_warnings (tl (five_results clock event)))"
    by (subst f) (simp add: vt)
  have e3: "sum_list (map result_penalty (five_results clock event))
              = 0.16 + (if warns = [] then 0 else 0.08)
                + sum_list (map result_penalty (tl (five_results clock event)))"
    by (subst f) (simp add: p)
  show ?thesis
    by (simp add: validate_event_with_returns
                    [where validate_fn = validate_fn and event = event, OF assms(1)]
                  five_rule_errs five_rule_warns five_rule_penalty e1 e2 e3 algebra_simps)
qed

lemma escaping_rule_charged:
  assumes "after_schema (validate_fn (VideoAnalyticsEvent_dict event) load_json_schema)
             = Inr (es0, ws0, q0)"
      and "rule_func clock event = Inl e"
  shows "errors (validate_event_with validate_fn (rs1 @ (rule_name, rule_func) # rs2) clock event)
           = es0 @ concat (map (rule_errs clock event) rs1)
             @ [''Validation rule '' @ [CHR 0x27] @ rule_name @ [CHR 0x27] @ '' failed: ''
                @ exn_str e]
             @ concat (map (rule_errs clock event) rs2)
         \<and> warnings (validate_event_with validate_fn (rs1 @ (rule_name, rule_func) # rs2) clock event)
           = ws0 @ concat (map (rule_warns clock event) rs1)
             @ concat (map (rule_warns clock event) rs2)
         \<and> score (validate_event_with validate_fn (rs1 @ (rule_name, rule_func) # rs2) clock event)
           = max 0 (q0 - sum_list (map (rule_penalty clock event) rs1) - 0.1
                       - sum_list (map (rule_penalty clock event) rs2))"
proof -
  have r: "rule_errs clock event (rule_name, rule_func)
             = [''Validation rule '' @ [CHR 0x27] @ rule_name @ [CHR 0x27] @ '' failed: ''
                @ exn_str e]
           \<and> rule_warns clock event (rule_name, rule_func) = []
           \<and> rule_penalty clock event (rule_name, rule_func) = 0.1"
    using assms(2) by (simp add: rule_errs_def rule_warns_def rule_penalty_def quoted_def)
  show ?thesis
    by (simp add: validate_event_with_returns
                    [where validate_fn = validate_fn and event = event, OF assms(1)]
                  r algebra_simps)
qed

text \<open>
  C7, as the code has it. Each of the five rules of the checker runs its checks inside
  its own \<open>try\<close> block, so none of them lets an exception reach the loop of
  \<open>validate_event\<close>: every one returns a result. Only the timestamp rule can fail that
  way on an event of this model. When its \<open>try\<close> block ends in an exception, the rule
  returns the errors and warnings it had appended and one more error,
  \<open>Timestamp validation error:\<close> followed by the exception's text. \<open>validate_event\<close>
  then charges the rule as any rule that reports an error: \<open>0.8 * 0.2 = 0.16\<close> off the
  score, and \<open>0.08\<close> more when the rule had appended a warning; the other four rules
  are evaluated, and their errors and warnings follow in the result. The handler of the
  loop is reached only by a rule that lets its exception out. For such a rule, in any
  table of rules, the result has one error \<open>Validation rule '<name>' failed: <text>\<close> at
  the rule's place, the score loses a flat 0.1 for it, and the rules before and after it
  contribute as they do otherwise. All of this holds when the structural check returns
  or raises its ValidationError.
\<close>

theorem C7_rule_exceptions:
  assumes "after_schema (validate_fn (VideoAnalyticsEvent_dict event) load_json_schema)
             = Inr (es0, ws0, q0)"
  shows "(\<forall>r \<in> set initialize_validation_rules. \<exists>res. (snd r) clock event = Inr res)
         \<and> (\<forall>errs warns e. timestamp_try_body clock event = (errs, warns, Some e) \<longrightarrow>
              errors (validate_event_with validate_fn initialize_validation_rules clock event)
                = es0 @ errs @ [''Timestamp validation error: '' @ exn_str e]
                  @ concat (map rule_errors (tl (five_results clock event)))
              \<and> warnings (validate_event_with validate_fn initialize_validation_rules clock event)
                = ws0 @ warns @ concat (map rule_warnings (tl (five_results clock event)))
              \<and> score (validate_event_with validate_fn initialize_validation_rules clock event)
                = max 0 (q0 - 0.16 - (if warns = [] then 0 else 0.08)
                            - sum_list (map result_penalty (tl (five_results clock event)))))
         \<and> (\<forall>rs1 rs2 rule_name rule_func e. rule_func clock event = Inl e \<longrightarrow>
              errors (validate_event_with validate_fn (rs1 @ (rule_name, rule_func) # rs2)
                        clock event)
                = es0 @ concat (map (rule_errs clock event) rs1)
                  @ [''Validation rule '' @ [CHR 0x27] @ rule_name @ [CHR 0x27] @ '' failed: ''
                     @ exn_str e]
                  @ concat (map (rule_errs clock event) rs2)
              \<and> warnings (validate_event_with validate_fn (rs1 @ (rule_name, rule_func) # rs2)
                            clock event)
                = ws0 @ concat (map (rule_warns clock event) rs1)
                  @ concat (map (rule_warns clock event) rs2)
              \<and> score (validate_event_with validate_fn (rs1 @ (rule_name, rule_func) # rs2)
                         clock event)
                = max 0 (q0 - sum_list (map (rule_penalty clock event) rs1) - 0.1
                            - sum_list (map (rule_penalty clock event) rs2)))"
  using shipped_rules_return [of clock event]
        timestamp_rule_raised [where validate_fn = validate_fn and event = event, OF assms]
        escaping_rule_charged [where validate_fn = validate_fn and event = event, OF assms]
  by blast

lemma aware_timestamp_raises:
  assumes "utcoffset (timestamp event) = Some off" "0 \<le> clock + 300000000"
          "clock + 300000000 < MAXTICKS"
  shows "timestamp_try_body clock event
           = ([], [], Some (TypeError ''can't compare offset-naive and offset-aware datetimes''))"
  using assms
  by (simp add: timestamp_try_body_def timestamp_in_future_def dt_add_def utcnow_def
           timedelta_def dt_gt_def dt_lt_def Let_def)

lemma aware_timestamp_body:
  "timestamp_try_body clock0 aware_event
     = ([], [], Some (TypeError ''can't compare offset-naive and offset-aware datetimes''))"
  by (simp add: timestamp_try_body_def timestamp_in_future_def dt_add_def utcnow_def
           timedelta_def dt_gt_def dt_lt_def aware_event_def clock0_def MAXTICKS_def Let_def)

lemma aware_event_other_rules:
  "map rule_errors (tl (five_results clock0 aware_event)) = [[], [], [], []]
   \<and> map rule_warnings (tl (five_results clock0 aware_event)) = [[], [], [], []]
   \<and> sum_list (map result_penalty (tl (five_results clock0 aware_event))) = 0"
  by (simp add: five_results_def aware_event_def validate_confidence_def
           validate_bounding_box_def validate_event_consistency_def
           validate_source_integrity_def strip_def isspace_def result_penalty_def)

lemma blank_ids_rule_outcomes:
  "concat (map (rule_errs clock0 (blank_ids_event clock0)) initialize_validation_rules)
     = [''Empty video source ID'', ''Empty camera ID'']
   \<and> concat (map (rule_warns clock0 (blank_ids_event clock0)) initialize_validation_rules) = []
   \<and> sum_list (map (rule_penalty clock0 (blank_ids_event clock0)) initialize_validation_rules)
       = 0.08"
  using blank_ids_results by (simp add: five_rule_errs five_rule_warns five_rule_penalty blank_ids_penalty)

theorem C7_rule_exceptions_witness:
  "tl (errors (validate_event clock0 aware_event))
     = [''Timestamp validation error: can't compare offset-naive and offset-aware datetimes'']
   \<and> warnings (validate_event clock0 aware_event) = []
   \<and> score (validate_event clock0 aware_event) = 0.54
   \<and> tl (errors (validate_event_with validate
                    ((''always_raises'', broken_rule) # initialize_validation_rules)
                    clock0 (blank_ids_event clock0)))
       = [''Validation rule '' @ [CHR 0x27] @ ''always_raises'' @ [CHR 0x27] @ '' failed: boom'',
          ''Empty video source ID'', ''Empty camera ID'']
   \<and> score (validate_event_with validate
                ((''always_raises'', broken_rule) # initialize_validation_rules)
                clock0 (blank_ids_event clock0)) = 0.52"
proof -
  obtain m where m: "validate (VideoAnalyticsEvent_dict aware_event) load_json_schema
                       = Some (JsonSchemaValidationError m)"
    using validate_raises by blast
  have s: "after_schema (validate (VideoAnalyticsEvent_dict aware_event) load_json_schema)
             = Inr ([''Schema validation failed: '' @ m], [], 1 - 0.3)"
    by (simp add: m)
  obtain m' where m': "validate (VideoAnalyticsEvent_dict (blank_ids_event clock0)) load_json_schema
                        = Some (JsonSchemaValidationError m')"
    using validate_raises by blast
  have s': "after_schema (validate (VideoAnalyticsEvent_dict (blank_ids_event clock0))
                           load_json_schema)
              = Inr ([''Schema validation failed: '' @ m'], [], 1 - 0.3)"
    by (simp add: m')
  have b: "broken_rule clock0 (blank_ids_event clock0) = Inl (OtherException ''boom'')"
    by (simp add: broken_rule_def)
  note a1 = C7_rule_exceptions [where validate_fn = validate and event = aware_event
                                  and clock = clock0, OF s]
  note a2 = C7_rule_exceptions [where validate_fn = validate and event = "blank_ids_event clock0"
                                  and clock = clock0, OF s']
  have p1: "errors (validate_event_with validate initialize_validation_rules clock0 aware_event)
              = [''Schema validation failed: '' @ m] @ []
                @ [''Timestamp validation error: ''
                   @ exn_str (TypeError ''can't compare offset-naive and offset-aware datetimes'')]
                @ concat (map rule_errors (tl (five_results clock0 aware_event)))
            \<and> warnings (validate_event_with validate initialize_validation_rules clock0 aware_event)
              = [] @ [] @ concat (map rule_warnings (tl (five_results clock0 aware_event)))
            \<and> score (validate_event_with validate initialize_validation_rules clock0 aware_event)
              = max 0 (1 - 0.3 - 0.16 - (if ([] :: string list) = [] then 0 else 0.08)
                         - sum_list (map result_penalty (tl (five_results clock0 aware_event))))"
    using a1 aware_timestamp_body by blast
  have p2: "errors (validate_event_with validate
                      ([] @ (''always_raises'', broken_rule) # initialize_validation_rules)
                      clock0 (blank_ids_event clock0))
              = [''Schema validation failed: '' @ m']
                @ concat (map (rule_errs clock0 (blank_ids_event clock0)) [])
                @ [''Validation rule '' @ [CHR 0x27] @ ''always_raises'' @ [CHR 0x27]
                   @ '' failed: '' @ exn_str (OtherException ''boom'')]
                @ concat (map (rule_errs clock0 (blank_ids_event clock0)) initialize_validation_rules)
            \<and> score (validate_event_with validate
                      ([] @ (''always_raises'', broken_rule) # initialize_validation_rules)
                      clock0 (blank_ids_event clock0))
              = max 0 (1 - 0.3 - sum_list (map (rule_penalty clock0 (blank_ids_event clock0)) []) - 0.1
                         - sum_list (map (rule_penalty clock0 (blank_ids_event clock0))
                                       initialize_validation_rules))"
    using a2 b by blast
  show ?thesis
    using p1 p2 aware_event_other_rules blank_ids_rule_outcomes
    by (simp add: validate_event_def)
qed

text \<open>
  The claim as worded fails on an event whose timestamp is aware, the value that a text
  ending in \<open>Z\<close> parses to. The evaluation of the timestamp rule raises TypeError. The
  error in the result is the rule's own: the loop's
  \<open>Validation rule 'timestamp_validity' failed: ...\<close> is not there. The score has lost
  0.16 for the rule, not 0.1: it is 0.54 with the structural check of the code, where a
  flat 0.1 gives 0.6, and 0.84 with a structural check that passes, where a flat 0.1
  gives 0.9.
\<close>

theorem C7_caught_inside_rule_counterexample:
  "timestamp_in_future clock0 aware_event
     = Inl (TypeError ''can't compare offset-naive and offset-aware datetimes'')
   \<and> tl (errors (validate_event clock0 aware_event))
       = [''Timestamp validation error: can't compare offset-naive and offset-aware datetimes'']
   \<and> ''Validation rule '' @ [CHR 0x27] @ ''timestamp_validity'' @ [CHR 0x27]
       @ '' failed: can't compare offset-naive and offset-aware datetimes''
       \<notin> set (errors (validate_event clock0 aware_event))
   \<and> score (validate_event clock0 aware_event) = 0.54
   \<and> score (validate_event clock0 aware_event) \<noteq> 1 - 0.3 - 0.1
   \<and> score (validate_event_with schema_passes initialize_validation_rules clock0 aware_event)
       = 0.84
   \<and> score (validate_event_with schema_passes initialize_validation_rules clock0 aware_event)
       \<noteq> 1 - 0.1"
proof -
  obtain m where m: "validate (VideoAnalyticsEvent_dict aware_event) load_json_schema
                       = Some (JsonSchemaValidationError m)"
    using validate_raises by blast
  have s: "after_schema (validate (VideoAnalyticsEvent_dict aware_event) load_json_schema)
             = Inr ([''Schema validation failed: '' @ m], [], 1 - 0.3)"
    by (simp add: m)
  have s0: "after_schema (schema_passes (VideoAnalyticsEvent_dict aware_event) load_json_schema)
              = Inr ([], [], 1)"
    by (simp add: schema_passes_def)
  have raised: "timestamp_in_future clock0 aware_event
     = Inl (TypeError ''can't compare offset-naive and offset-aware datetimes'')"
    by (simp add: timestamp_in_future_def dt_add_def utcnow_def
           timedelta_def dt_gt_def dt_lt_def aware_event_def clock0_def MAXTICKS_def Let_def)
  have e: "errors (validate_event clock0 aware_event)
             = [''Schema validation failed: '' @ m,
                ''Timestamp validation error: can't compare offset-naive and offset-aware datetimes'']"
    using timestamp_rule_raised [where validate_fn = validate and event = aware_event
                                   and clock = clock0, OF s aware_timestamp_body]
          aware_event_other_rules
    by (simp add: validate_event_def)
  have q: "score (validate_event clock0 aware_event) = 0.54"
    using timestamp_rule_raised [where validate_fn = validate and event = aware_event
                                   and clock = clock0, OF s aware_timestamp_body]
          aware_event_other_rules
    by (simp add: validate_event_def)
  have q0: "score (validate_event_with schema_passes initialize_validation_rules clock0 aware_event)
              = 0.84"
    using timestamp_rule_raised [where validate_fn = schema_passes and event = aware_event
                                   and clock = clock0, OF s0 aware_timestamp_body]
          aware_event_other_rules
    by simp
  show ?thesis using raised e q q0 by simp
qed

section \<open>\<open>validate_event\<close> always returns a result\<close>

lemma penalties_nonneg:
  assumes "\<forall>r \<in> set rs. \<forall>res. (snd r) clock event = Inr res \<longrightarrow> 0 \<le> severity res"
  shows "0 \<le> sum_list (map (rule_penalty clock event) rs)"
proof (rule sum_list_nonneg)
  fix p assume "p \<in> set (map (rule_penalty clock event) rs)"
  then obtain r where r: "r \<in> set rs" "p = rule_penalty clock event r" by auto
  show "0 \<le> p"
  proof (cases "(snd r) clock event")
    case (Inl e)
    then show ?thesis by (simp add: r(2) rule_penalty_def)
  next
    case (Inr res)
    then have "0 \<le> severity res" using assms r(1) by blast
    then show ?thesis using Inr by (simp add: r(2) rule_penalty_def result_penalty_nonneg)
  qed
qed

text \<open>
  C10. \<open>validate_event\<close> is a total function of the model: whatever the structural check
  and the rules do (return, or raise), it returns a result. When the structural check
  raises anything but its ValidationError, the result is one error that carries the
  exception's text, no warnings, the score 0.0 and \<open>is_valid = False\<close>. The score is in
  \<open>[0, 1]\<close> whenever no rule returns a negative severity, and so it is for the five rules
  of the checker. A valid result has no errors.
\<close>

theorem C10_validate_event_total:
  assumes "\<forall>r \<in> set rs. \<forall>res. (snd r) clock event = Inr res \<longrightarrow> 0 \<le> severity res"
  shows "0 \<le> score (validate_event_with validate_fn rs clock event)
         \<and> score (validate_event_with validate_fn rs clock event) \<le> 1
         \<and> (is_valid (validate_event_with validate_fn rs clock event)
              \<longrightarrow> errors (validate_event_with validate_fn rs clock event) = [])
         \<and> (\<forall>e. after_schema (validate_fn (VideoAnalyticsEvent_dict event) load_json_schema) = Inl e
              \<longrightarrow> validate_event_with validate_fn rs clock event
                   = \<lparr>is_valid = False, errors = [''Unexpected validation error: '' @ exn_str e],
                      warnings = [], score = 0.0\<rparr>)
         \<and> 0 \<le> score (validate_event clock event)
         \<and> score (validate_event clock event) \<le> 1"
proof -
  let ?v = "validate_fn (VideoAnalyticsEvent_dict event) load_json_schema"
  have pn: "0 \<le> sum_list (map (rule_penalty clock event) rs)"
    using assms by (rule penalties_nonneg)
  have general: "0 \<le> score (validate_event_with validate_fn rs clock event)
         \<and> score (validate_event_with validate_fn rs clock event) \<le> 1
         \<and> (is_valid (validate_event_with validate_fn rs clock event)
              \<longrightarrow> errors (validate_event_with validate_fn rs clock event) = [])"
  proof -
    consider (ok) "after_schema ?v = Inr ([], [], 1)"
      | (invalid) m where "after_schema ?v = Inr ([''Schema validation failed: '' @ m], [], 7 / 10)"
      | (raised) e where "after_schema ?v = Inl e"
      using after_schema_cases [of ?v] by blast
    then show ?thesis
    proof cases
      case ok
      show ?thesis
        using pn
        by (simp add: validate_event_with_returns
                        [where validate_fn = validate_fn and event = event, OF ok])
    next
      case invalid
      show ?thesis
        using pn
        by (simp add: validate_event_with_returns
                        [where validate_fn = validate_fn and event = event, OF invalid])
    next
      case raised
      show ?thesis
        by (simp add: validate_event_with_raises
                        [where validate_fn = validate_fn and event = event, OF raised])
    qed
  qed
  have raisedcase: "\<forall>e. after_schema ?v = Inl e
              \<longrightarrow> validate_event_with validate_fn rs clock event
                   = \<lparr>is_valid = False, errors = [''Unexpected validation error: '' @ exn_str e],
                      warnings = [], score = 0.0\<rparr>"
    by (simp add: validate_event_with_def)
  have five: "0 \<le> sum_list (map result_penalty (five_results clock event))"
    by (simp add: five_results_def result_penalty_def severity_validate_timestamp
             validate_confidence_def validate_bounding_box_def validate_event_consistency_def
             validate_source_integrity_def split: option.splits)
  have concrete: "0 \<le> score (validate_event clock event) \<and> score (validate_event clock event) \<le> 1"
    using five by (simp add: validate_event_result Let_def)
  show ?thesis using general raisedcase concrete by blast
qed

theorem C10_validate_event_witness:
  "validate_event_with schema_crashes initialize_validation_rules clock0 (blank_ids_event clock0)
     = \<lparr>is_valid = False,
        errors = [''Unexpected validation error: schema unavailable''],
        warnings = [], score = 0\<rparr>
   \<and> 0 \<le> score (validate_event_with schema_passes [(''broken'', broken_rule)] clock0
                  (blank_ids_event clock0))
   \<and> score (validate_event_with schema_passes [(''broken'', broken_rule)] clock0
                  (blank_ids_event clock0)) \<le> 1
   \<and> 0 \<le> score (validate_event clock0 (blank_ids_event clock0))"
proof -
  have h1: "\<forall>r \<in> set initialize_validation_rules.
              \<forall>res. (snd r) clock0 (blank_ids_event clock0) = Inr res \<longrightarrow> 0 \<le> severity res"
    using five_severities [of clock0 "blank_ids_event clock0"]
    by (auto simp: initialize_validation_rules_def five_results_def)
  have h2: "\<forall>r \<in> set [(''broken'', broken_rule)].
              \<forall>res. (snd r) clock0 (blank_ids_event clock0) = Inr res \<longrightarrow> 0 \<le> severity res"
    by (simp add: broken_rule_def)
  have cr: "after_schema (schema_crashes (VideoAnalyticsEvent_dict (blank_ids_event clock0))
              load_json_schema) = Inl (OtherException ''schema unavailable'')"
    by (simp add: schema_crashes_def)
  show ?thesis
    using C10_validate_event_total [where validate_fn = schema_crashes, OF h1]
          C10_validate_event_total [where validate_fn = schema_passes, OF h2] cr
    by simp
qed

section \<open>Counting into a dictionary\<close>

lemma update_map_keys:
  "distinct ks \<Longrightarrow>
   AList.update k v (map (\<lambda>x. (x, f x)) ks) =
     (if k \<in> set ks then map (\<lambda>x. (x, (f(k := v)) x)) ks
      else map (\<lambda>x. (x, f x)) ks @ [(k, v)])"
  by (induction ks) auto

lemma distinct_first_seen: "distinct (first_seen xs)"
  by (simp add: first_seen_def)

lemma first_seen_snoc:
  "first_seen (xs @ [x]) = (if x \<in> set xs then first_seen xs else first_seen xs @ [x])"
  by (simp add: first_seen_def)

lemma set_first_seen: "set (first_seen xs) = set xs"
  by (simp add: first_seen_def)

lemma map_of_occurrence_counts:
  "map_of (occurrence_counts xs) k = (if k \<in> set xs then Some (count_list xs k) else None)"
  by (simp add: occurrence_counts_def map_of_map_restrict restrict_map_def set_first_seen)

lemma get_count_occurrence: "get_count (occurrence_counts xs) k = count_list xs k"
  by (simp add: get_count_def map_of_occurrence_counts count_list_0_iff)

lemma tally_occurrence_counts:
  "tally (occurrence_counts xs) x = occurrence_counts (xs @ [x])"
proof -
  have "tally (occurrence_counts xs) x
          = AList.update x (count_list xs x + 1)
              (map (\<lambda>k. (k, count_list xs k)) (first_seen xs))"
    by (simp add: tally_def get_count_occurrence) (simp add: occurrence_counts_def)
  also have "\<dots> = occurrence_counts (xs @ [x])"
    by (auto simp: update_map_keys [OF distinct_first_seen] occurrence_counts_def
             first_seen_snoc set_first_seen)
  finally show ?thesis .
qed

lemma foldl_tally_occurrence:
  "foldl tally (occurrence_counts xs) ys = occurrence_counts (xs @ ys)"
proof (induction ys arbitrary: xs)
  case Nil
  show ?case by simp
next
  case (Cons y ys)
  show ?case using Cons.IH [of "xs @ [y]"] by (simp add: tally_occurrence_counts)
qed

lemma foldl_tally_empty: "foldl tally [] ys = occurrence_counts ys"
  using foldl_tally_occurrence [of "[]" ys] by (simp add: occurrence_counts_def first_seen_def)

section \<open>The aggregate of a window\<close>

lemma aggregate_fold:
  "foldl aggregate_step (occurrence_counts ks, cs) xs
     = (occurrence_counts (ks @ map (\<lambda>d. EventType_value (event_type (fr_event d))) xs),
        cs @ observed_confidence xs)"
proof (induction xs arbitrary: ks cs)
  case Nil
  show ?case by (simp add: observed_confidence_def)
next
  case (Cons d xs)
  have step: "aggregate_step (occurrence_counts ks, cs) d
                = (occurrence_counts (ks @ [EventType_value (event_type (fr_event d))]),
                   cs @ observed_confidence [d])"
    by (simp add: aggregate_step_def tally_occurrence_counts observed_confidence_def Let_def
             split: option.splits)
  show ?case
    using Cons.IH [of "ks @ [EventType_value (event_type (fr_event d))]"
                      "cs @ observed_confidence [d]"]
    by (simp add: step observed_confidence_def)
qed

lemma aggregation_result:
  "WindowedAggregation_process (key, events_list) window clock c =
     ([\<lparr>agg_window_start = window_start window, agg_window_end = window_end window,
        agg_source_id = key, total_events = length events_list,
        event_type_counts =
          occurrence_counts (map (\<lambda>d. EventType_value (event_type (fr_event d))) events_list),
        average_confidence =
          (if observed_confidence events_list = [] then 0
           else sum_list (observed_confidence events_list)
                / real (length (observed_confidence events_list))),
        high_confidence_events = length (filter (\<lambda>s. s > 0.9) (observed_confidence events_list)),
        aggregated_at = utcnow clock\<rparr>],
      increment_counter ''windows_aggregated'' c)"
proof -
  have "foldl aggregate_step ([], []) events_list
          = (occurrence_counts (map (\<lambda>d. EventType_value (event_type (fr_event d))) events_list),
             observed_confidence events_list)"
    using aggregate_fold [of "[]" "[]" events_list]
    by (simp add: occurrence_counts_def first_seen_def)
  then show ?thesis by (simp add: WindowedAggregation_process_def Let_def)
qed

lemma inj_EventType_value: "EventType_value a = EventType_value b \<Longrightarrow> a = b"
  by (cases a; cases b) simp_all

lemma count_type_values:
  "count_list (map (\<lambda>d. EventType_value (event_type (fr_event d))) xs) (EventType_value t)
     = length (filter (\<lambda>d. event_type (fr_event d) = t) xs)"
  by (induction xs) (auto dest: inj_EventType_value)

lemma event_type_counts_correct:
  "map_of (occurrence_counts (map (\<lambda>d. EventType_value (event_type (fr_event d))) xs))
          (EventType_value t)
     = (if length (filter (\<lambda>d. event_type (fr_event d) = t) xs) = 0 then None
        else Some (length (filter (\<lambda>d. event_type (fr_event d) = t) xs)))"
proof -
  have "(EventType_value t \<in> set (map (\<lambda>d. EventType_value (event_type (fr_event d))) xs))
          = (length (filter (\<lambda>d. event_type (fr_event d) = t) xs) \<noteq> 0)"
    by (induction xs) (auto dest: inj_EventType_value)
  then show ?thesis by (simp add: map_of_occurrence_counts count_type_values)
qed

lemma observed_is_present_without_zero:
  assumes "\<forall>d \<in> set xs. confidence (data (fr_event d)) \<noteq> Some 0"
  shows "observed_confidence xs
           = concat (map (\<lambda>d. case confidence (data (fr_event d)) of
                                 None \<Rightarrow> [] | Some cf \<Rightarrow> [cf]) xs)"
  using assms by (induction xs) (auto simp: observed_confidence_def split: option.splits)

lemma average_is_mean_without_zero:
  assumes "\<forall>d \<in> set xs. confidence (data (fr_event d)) \<noteq> Some 0"
  shows "map average_confidence (fst (WindowedAggregation_process (key, xs) window clock c))
           = [spec_average_confidence xs]"
  by (simp add: aggregation_result spec_average_confidence_def
           observed_is_present_without_zero [OF assms, symmetric] Let_def)

lemma aggregation_example:
  "map total_events (fst (WindowedAggregation_process
       (''A'', [window_event (Some 0.8), window_event (Some 1.0)]) window0 clock0 (\<lambda>k. 0))) = [2]
   \<and> map average_confidence (fst (WindowedAggregation_process
       (''A'', [window_event (Some 0.8), window_event (Some 1.0)]) window0 clock0 (\<lambda>k. 0))) = [0.9]
   \<and> map high_confidence_events (fst (WindowedAggregation_process
       (''A'', [window_event (Some 0.8), window_event (Some 1.0)]) window0 clock0 (\<lambda>k. 0))) = [1]"
  by (simp add: aggregation_result observed_confidence_def window_event_def)

lemma aggregation_no_confidence:
  "observed_confidence xs = [] \<Longrightarrow>
   map average_confidence (fst (WindowedAggregation_process (key, xs) window clock c)) = [0]"
  by (simp add: aggregation_result)

text \<open>
  C3, at a window of source A with two events, of confidence 0.0 and 1.0. Both values are
  present on the events and their mean is 0.5; the aggregate has
  \<open>average_confidence = 1\<close>, since \<open>if event_dict["event"]["data"].get("confidence")\<close>
  is false for 0.0 and the value is never collected. The count of events is right.
\<close>

theorem C3_zero_confidence_left_out:
  "map average_confidence (fst (WindowedAggregation_process
       (''A'', [window_event (Some 0), window_event (Some 1)]) window0 clock0 (\<lambda>k. 0))) = [1]
   \<and> spec_average_confidence [window_event (Some 0), window_event (Some 1)] = 1 / 2
   \<and> map total_events (fst (WindowedAggregation_process
       (''A'', [window_event (Some 0), window_event (Some 1)]) window0 clock0 (\<lambda>k. 0))) = [2]"
  by (simp add: aggregation_result observed_confidence_def spec_average_confidence_def
           window_event_def)

section \<open>The quality monitor\<close>

lemma record_all_fields:
  "quality_history (record_all rs m) = quality_history m @ map history_record rs
   \<and> error_counts (record_all rs m)
       = foldl tally (error_counts m) (concat (map (\<lambda>r. errors (rec_result r)) rs))
   \<and> warning_counts (record_all rs m)
       = foldl tally (warning_counts m) (concat (map (\<lambda>r. warnings (rec_result r)) rs))"
proof (induction rs arbitrary: m)
  case Nil
  show ?case by (simp add: record_all_def)
next
  case (Cons r rs)
  have unfold: "record_all (r # rs) m
      = record_all rs (record_validation_result (rec_clock r) (rec_result r) (rec_event_id r) m)"
    by (simp add: record_all_def)
  show ?case
    unfolding unfold
    by (simp add: Cons.IH) (simp add: record_validation_result_def history_record_def)
qed

lemma record_all_init:
  "quality_history (record_all rs DataQualityMonitor_init) = map history_record rs
   \<and> error_counts (record_all rs DataQualityMonitor_init)
       = occurrence_counts (concat (map (\<lambda>r. errors (rec_result r)) rs))
   \<and> warning_counts (record_all rs DataQualityMonitor_init)
       = occurrence_counts (concat (map (\<lambda>r. warnings (rec_result r)) rs))"
  by (simp add: record_all_fields foldl_tally_empty) (simp add: DataQualityMonitor_init_def foldl_tally_empty)

lemma in_window_history:
  "in_window ct (map history_record rs) = map history_record (filter (\<lambda>r. rec_clock r > ct) rs)"
  by (induction rs) (simp_all add: in_window_def history_record_def)

lemma filter_take_prefix:
  "filter P (take n xs) = take (length (filter P (take n xs))) (filter P xs)"
proof (induction xs arbitrary: n)
  case Nil
  show ?case by simp
next
  case (Cons x xs)
  show ?case
  proof (cases n)
    case 0
    then show ?thesis by simp
  next
    case (Suc k)
    show ?thesis using Cons.IH [of k] by (simp add: Suc)
  qed
qed

lemma top5_properties:
  "length (top5 counts) \<le> 5
   \<and> sorted (map (\<lambda>p. - int (snd p)) (top5 counts))
   \<and> set (top5 counts) \<subseteq> set counts
   \<and> (\<exists>k. filter (\<lambda>p. snd p = n) (top5 counts) = take k (filter (\<lambda>p. snd p = n) counts))"
proof -
  let ?f = "\<lambda>p::string \<times> nat. - int (snd p)"
  have srt: "sorted (map ?f (top5 counts))"
    unfolding top5_def take_map [symmetric] by (rule sorted_wrt_take) (rule sorted_sort_key)
  have sub: "set (top5 counts) \<subseteq> set counts"
    unfolding top5_def using set_take_subset [of 5 "sort_key ?f counts"] by simp
  have eqf: "(\<lambda>p::string \<times> nat. snd p = n) = (\<lambda>p. ?f p = - int n)"
    by (rule ext) simp
  have stable: "filter (\<lambda>p. snd p = n) (sort_key ?f counts) = filter (\<lambda>p. snd p = n) counts"
    unfolding eqf by (rule sort_key_stable)
  have "filter (\<lambda>p. snd p = n) (top5 counts)
          = take (length (filter (\<lambda>p. snd p = n) (top5 counts)))
                 (filter (\<lambda>p. snd p = n) (sort_key ?f counts))"
    unfolding top5_def by (rule filter_take_prefix)
  then have "\<exists>k. filter (\<lambda>p. snd p = n) (top5 counts) = take k (filter (\<lambda>p. snd p = n) counts)"
    unfolding stable by blast
  then show ?thesis using srt sub by (simp add: top5_def)
qed

text \<open>
  C9, as the code has it. Let the monitor hold the results recorded since it was created,
  and let the cutoff time \<open>utcnow() - timedelta(minutes=window_minutes)\<close> be a date.
  When no record is later than the cutoff the answer is \<open>no_data\<close>. Otherwise the count,
  the valid count, the validity rate, the average score and the totals of errors and
  warnings are those of the records later than the cutoff, while the top errors and
  the top warnings come from the counts of all the messages recorded since the monitor was
  created, inside the window or not: at most five entries, by descending count, entries
  of equal count in the order in which their messages were first seen.
\<close>

theorem C9_quality_metrics:
  assumes "cutoff clock window_minutes = Inr cutoff_time"
  shows "get_quality_metrics clock window_minutes (record_all rs DataQualityMonitor_init) =
     (let recent = filter (\<lambda>r. rec_clock r > cutoff_time) rs in
      if recent = [] then Inr NoData
      else Inr (Report
        \<lparr>qm_window_minutes = window_minutes,
         qm_total_events = length recent,
         valid_events = length (filter (\<lambda>r. is_valid (rec_result r)) recent),
         validity_rate = real (length (filter (\<lambda>r. is_valid (rec_result r)) recent))
                         / real (length recent),
         average_quality_score = sum_list (map (\<lambda>r. score (rec_result r)) recent)
                                 / real (length recent),
         total_errors = sum_list (map (\<lambda>r. length (errors (rec_result r))) recent),
         total_warnings = sum_list (map (\<lambda>r. length (warnings (rec_result r))) recent),
         top_errors = top5 (occurrence_counts (concat (map (\<lambda>r. errors (rec_result r)) rs))),
         top_warnings = top5 (occurrence_counts (concat (map (\<lambda>r. warnings (rec_result r)) rs)))\<rparr>))
   \<and> length (top5 (occurrence_counts (concat (map (\<lambda>r. errors (rec_result r)) rs)))) \<le> 5
   \<and> sorted (map (\<lambda>p. - int (snd p))
               (top5 (occurrence_counts (concat (map (\<lambda>r. errors (rec_result r)) rs)))))
   \<and> (\<forall>n. \<exists>k. filter (\<lambda>p. snd p = n)
                  (top5 (occurrence_counts (concat (map (\<lambda>r. errors (rec_result r)) rs))))
              = take k (filter (\<lambda>p. snd p = n)
                  (occurrence_counts (concat (map (\<lambda>r. errors (rec_result r)) rs)))))"
proof -
  have flt: "filter qr_is_valid (map history_record xs)
               = map history_record (filter (\<lambda>r. is_valid (rec_result r)) xs)" for xs
    by (induction xs) (simp_all add: history_record_def)
  have m1: "map quality_score (map history_record xs) = map (\<lambda>r. score (rec_result r)) xs" for xs
    by (simp add: history_record_def)
  have m2: "map error_count (map history_record xs)
              = map (\<lambda>r. length (errors (rec_result r))) xs" for xs
    by (simp add: history_record_def)
  have m3: "map warning_count (map history_record xs)
              = map (\<lambda>r. length (warnings (rec_result r))) xs" for xs
    by (simp add: history_record_def)
  have main: "get_quality_metrics clock window_minutes (record_all rs DataQualityMonitor_init) =
     (let recent = filter (\<lambda>r. rec_clock r > cutoff_time) rs in
      if recent = [] then Inr NoData
      else Inr (Report
        \<lparr>qm_window_minutes = window_minutes,
         qm_total_events = length recent,
         valid_events = length (filter (\<lambda>r. is_valid (rec_result r)) recent),
         validity_rate = real (length (filter (\<lambda>r. is_valid (rec_result r)) recent))
                         / real (length recent),
         average_quality_score = sum_list (map (\<lambda>r. score (rec_result r)) recent)
                                 / real (length recent),
         total_errors = sum_list (map (\<lambda>r. length (errors (rec_result r))) recent),
         total_warnings = sum_list (map (\<lambda>r. length (warnings (rec_result r))) recent),
         top_errors = top5 (occurrence_counts (concat (map (\<lambda>r. errors (rec_result r)) rs))),
         top_warnings = top5 (occurrence_counts (concat (map (\<lambda>r. warnings (rec_result r)) rs)))\<rparr>))"
    by (simp add: get_quality_metrics_def assms record_all_init in_window_history flt m1 m2 m3
             Let_def del: map_map)
  show ?thesis
    using main top5_properties [of "occurrence_counts (concat (map (\<lambda>r. errors (rec_result r)) rs))"]
    by blast
qed

lemma cutoff0: "cutoff clock0 60 = Inr (clock0 - 3600000000)"
  by (simp add: cutoff_def timedelta_minutes_def dt_add_def utcnow_def clock0_def MAXTICKS_def)

theorem C9_quality_metrics_witness:
  "get_quality_metrics clock0 60 (record_all [old_failure, recent_success] DataQualityMonitor_init)
     = Inr (Report
        \<lparr>qm_window_minutes = 60, qm_total_events = 1, valid_events = 1, validity_rate = 1,
         average_quality_score = 1, total_errors = 0, total_warnings = 0,
         top_errors = [(''Empty camera ID'', 1)], top_warnings = []\<rparr>)"
  using C9_quality_metrics [OF cutoff0, of "[old_failure, recent_success]"]
  by (simp add: old_failure_def recent_success_def clock0_def occurrence_counts_def
           first_seen_def top5_def Let_def)

text \<open>
  The claim as worded fails: two monitors whose records in the window are the same give
  different top errors, since one of them has an error recorded two hours earlier.
\<close>

theorem C9_window_counterexample:
  "in_window (clock0 - 3600000000)
      (quality_history (record_all [old_failure, recent_success] DataQualityMonitor_init))
     = in_window (clock0 - 3600000000)
         (quality_history (record_all [recent_success] DataQualityMonitor_init))
   \<and> get_quality_metrics clock0 60 (record_all [old_failure, recent_success] DataQualityMonitor_init)
     = Inr (Report
        \<lparr>qm_window_minutes = 60, qm_total_events = 1, valid_events = 1, validity_rate = 1,
         average_quality_score = 1, total_errors = 0, total_warnings = 0,
         top_errors = [(''Empty camera ID'', 1)], top_warnings = []\<rparr>)
   \<and> get_quality_metrics clock0 60 (record_all [recent_success] DataQualityMonitor_init)
     = Inr (Report
        \<lparr>qm_window_minutes = 60, qm_total_events = 1, valid_events = 1, validity_rate = 1,
         average_quality_score = 1, total_errors = 0, total_warnings = 0,
         top_errors = [], top_warnings = []\<rparr>)"
  by (simp add: get_quality_metrics_def cutoff0 record_all_init in_window_history
           old_failure_def recent_success_def history_record_def in_window_def
           occurrence_counts_def first_seen_def top5_def Let_def)

section \<open>Timestamps with \<open>Z\<close> and with \<open>+00:00\<close>\<close>

lemma digit_Z: "digit (CHR ''Z'') = None"
  by (simp add: digit_def)

lemma digit_range: "digit ch = Some d \<Longrightarrow> 0 \<le> d \<and> d \<le> 9"
  by (auto simp: digit_def Let_def split: if_splits)

lemma digits_no_Z: "digits acc xs = Some n \<Longrightarrow> CHR ''Z'' \<notin> set xs"
proof (induction xs arbitrary: acc)
  case Nil
  show ?case by simp
next
  case (Cons ch cs)
  then show ?case using digit_Z by (auto split: option.splits)
qed

lemma digits_bounds:
  "digits acc xs = Some n \<Longrightarrow> 0 \<le> acc \<Longrightarrow>
   acc * 10 ^ length xs \<le> n \<and> n < (acc + 1) * 10 ^ length xs"
proof (induction xs arbitrary: acc)
  case Nil
  then show ?case by simp
next
  case (Cons ch cs)
  from Cons.prems(1) obtain d where d: "digit ch = Some d" "digits (acc * 10 + d) cs = Some n"
    by (auto split: option.splits)
  have r: "0 \<le> d \<and> d \<le> 9" using digit_range [OF d(1)] .
  have nn: "0 \<le> acc * 10 + d" using Cons.prems(2) r by simp
  define p :: int where "p = 10 ^ length cs"
  define A :: int where "A = acc * p"
  define D :: int where "D = d * p"
  have ih: "(acc * 10 + d) * p \<le> n \<and> n < (acc * 10 + d + 1) * p"
    using Cons.IH [OF d(2) nn] by (simp add: p_def)
  have ppos: "0 \<le> p" by (simp add: p_def)
  have lo: "0 \<le> D" using r ppos by (simp add: D_def)
  have hi: "D \<le> 9 * p" unfolding D_def using r ppos by (intro mult_right_mono) simp_all
  have e1: "(acc * 10 + d) * p = 10 * A + D" by (simp add: A_def D_def algebra_simps)
  have e2: "(acc * 10 + d + 1) * p = 10 * A + D + p" by (simp add: A_def D_def algebra_simps)
  have "10 * A \<le> n \<and> n < 10 * A + 10 * p" using ih lo hi unfolding e1 e2 by linarith
  then show ?case by (simp add: A_def p_def algebra_simps)
qed

lemma number_no_Z: "number xs = Some n \<Longrightarrow> CHR ''Z'' \<notin> set xs"
  by (auto simp: number_def dest: digits_no_Z split: if_splits)

lemma number_bounds: "number xs = Some n \<Longrightarrow> 0 \<le> n \<and> n < 10 ^ length xs"
  using digits_bounds [of 0 xs n] by (auto simp: number_def split: if_splits)

lemma fraction_no_Z: "fraction ft = Some us \<Longrightarrow> CHR ''Z'' \<notin> set ft"
  by (auto simp: fraction_def dest: number_no_Z split: list.splits if_splits option.splits)

lemma fraction_bounds:
  assumes "fraction ft = Some us"
  shows "0 \<le> us \<and> us \<le> 999999"
proof (cases ft)
  case Nil
  then show ?thesis using assms by (simp add: fraction_def)
next
  case (Cons dot ds)
  then obtain n where n: "number ds = Some n" "length ds = 3 \<or> length ds = 6"
      "us = (if length ds = 3 then n * 1000 else n)"
    using assms by (auto simp: fraction_def split: if_splits option.splits)
  have b: "0 \<le> n \<and> n < 10 ^ length ds" using number_bounds [OF n(1)] .
  show ?thesis using n(2,3) b by auto
qed


lemma split_no_Z: "split_date_time s = Some f \<Longrightarrow> CHR ''Z'' \<notin> set s"
  by (erule split_date_time.elims)
     (auto dest!: number_no_Z fraction_no_Z split: if_splits option.splits)


lemma split_fields_nonneg:
  "split_date_time s = Some (y, mo, d, hh, mi, ss, us) \<Longrightarrow>
   0 \<le> hh \<and> 0 \<le> mi \<and> 0 \<le> ss \<and> 0 \<le> us \<and> us \<le> 999999"
  by (erule split_date_time.elims)
     (auto dest!: number_bounds fraction_bounds split: if_splits option.splits)

lemma well_formed_value:
  assumes "well_formed_local s"
  shows "\<exists>t. local_value s off = Accepts \<lparr>ticks = t, utcoffset = off\<rparr>"
proof -
  from assms obtain y mo d hh mi ss us where
    f: "split_date_time s = Some (y, mo, d, hh, mi, ss, us)"
    and r: "1 \<le> y" "y \<le> 9999" "1 \<le> mo" "mo \<le> 12" "1 \<le> d" "d \<le> days_in_month y mo"
           "hh \<le> 23" "mi \<le> 59" "ss \<le> 59"
    by (auto simp: well_formed_local_def split: option.splits)
  have nn: "0 \<le> hh \<and> 0 \<le> mi \<and> 0 \<le> ss \<and> 0 \<le> us \<and> us \<le> 999999"
    using f split_fields_nonneg by blast
  show ?thesis using f r nn by (simp add: local_value_def mk_datetime_def)
qed



lemma replace_Z_id: "CHR ''Z'' \<notin> set s \<Longrightarrow> replace_Z s = s"
  by (induction s) (auto simp: replace_Z_def)








lemma local_timestamp_accepted:
  assumes "python_agrees fromisoformat_fn" "well_formed_local s"
  shows "\<exists>t. timestamp_field fromisoformat_fn (TsStr s) = Inr \<lparr>ticks = t, utcoffset = None\<rparr>"
proof -
  have sp: "split_date_time s \<noteq> None"
    using assms(2) by (auto simp: well_formed_local_def split: option.splits)
  then have noZ: "CHR ''Z'' \<notin> set s" using split_no_Z by blast
  obtain t where t: "local_value s None = Accepts \<lparr>ticks = t, utcoffset = None\<rparr>"
    using well_formed_value [OF assms(2), of None] by blast
  have "iso_fragment s = Accepts \<lparr>ticks = t, utcoffset = None\<rparr>"
    using sp t by (simp add: iso_fragment_def)
  then have "fromisoformat_fn s = Inr \<lparr>ticks = t, utcoffset = None\<rparr>"
    using assms(1) by (auto simp: python_agrees_def split: iso_outcome.splits)
  then show ?thesis
    by (simp add: timestamp_field_def parse_timestamp_with_def replace_Z_id [OF noZ])
qed

lemma sample_fragment_values:
  "iso_fragment ''2023-12-01T10:30:00+00:00''
     = Accepts \<lparr>ticks = 63837023400000000, utcoffset = Some 0\<rparr>
   \<and> iso_fragment ''2023-12-01T10:30:00''
     = Accepts \<lparr>ticks = 63837023400000000, utcoffset = None\<rparr>
   \<and> iso_fragment ''2023-12-01 10:30:00.123456+00:00''
     = Accepts \<lparr>ticks = 63837023400123456, utcoffset = Some 0\<rparr>
   \<and> iso_fragment ''2023-02-30T10:30:00+00:00'' = Rejects
   \<and> iso_fragment ''1990-12-31T23:59:60+00:00'' = Rejects
   \<and> iso_fragment ''1990-12-31T23:59:60Z'' = Rejects
   \<and> iso_fragment ''0000-01-01T00:00:00+00:00'' = Rejects"
  by (simp add: iso_fragment_def local_value_def parse_offset_def fraction_def number_def
           digit_def mk_datetime_def days_in_month_def days_before_month_def
           days_before_year_def is_leap_def upto.simps)




text \<open>
  The timestamp of the sample event with an aware timestamp is the value that
  \<open>2023-12-01T10:30:00Z\<close> parses to.
\<close>

lemma Z_timestamp_of_aware_event:
  "timestamp_field fragment_parser (TsStr ''2023-12-01T10:30:00Z'') = Inr (timestamp aware_event)"
  using sample_fragment_values
  by (simp add: timestamp_field_def parse_timestamp_with_def fragment_parser_def replace_Z_def
           aware_event_def clock0_def)

end
